theory Spec2Isabelle
  imports Complex_Main "HOL-Library.Monad_Syntax"
begin

section \<open>Configuration and rectangles\<close>

text \<open>
  The constants of \<^verbatim>\<open>Config\<close> in \<^verbatim>\<open>game_start_ver.py\<close>. Python floats are
  idealised as rationals: every arithmetic operation is exact.
\<close>

definition SCREEN_WIDTH :: int where "SCREEN_WIDTH = 800"
definition SCREEN_HEIGHT :: int where "SCREEN_HEIGHT = 600"
definition FPS :: int where "FPS = 60"
definition PLAYER_SPEED :: int where "PLAYER_SPEED = 5"
definition BULLET_SPEED :: int where "BULLET_SPEED = 10"
definition ENEMY_SPEED :: int where "ENEMY_SPEED = 2"

text \<open>
  A \<^verbatim>\<open>pygame.Rect\<close>: integer position and size. The derived attributes follow
  pygame: \<^verbatim>\<open>right = x + w\<close>, \<^verbatim>\<open>bottom = y + h\<close>, \<^verbatim>\<open>centerx = x + w // 2\<close>.
\<close>

record Rect =
  rx :: int
  ry :: int
  rw :: int
  rh :: int

definition rect_left :: "Rect \<Rightarrow> int" where "rect_left r = rx r"
definition rect_right :: "Rect \<Rightarrow> int" where "rect_right r = rx r + rw r"
definition rect_top :: "Rect \<Rightarrow> int" where "rect_top r = ry r"
definition rect_bottom :: "Rect \<Rightarrow> int" where "rect_bottom r = ry r + rh r"
definition rect_centerx :: "Rect \<Rightarrow> int" where "rect_centerx r = rx r + rw r div 2"
definition rect_centery :: "Rect \<Rightarrow> int" where "rect_centery r = ry r + rh r div 2"

text \<open>
  Assigning a number to a coordinate of a \<^verbatim>\<open>Rect\<close> stores an integer; a float is
  truncated towards zero.
\<close>

definition to_int :: "rat \<Rightarrow> int" where
  "to_int q = (if 0 \<le> q then \<lfloor>q\<rfloor> else \<lceil>q\<rceil>)"

text \<open>
  \<^verbatim>\<open>Rect.colliderect\<close>: the two rectangles share interior area. Every rectangle of
  this program has positive width and height.
\<close>

definition colliderect :: "Rect \<Rightarrow> Rect \<Rightarrow> bool" where
  "colliderect a b \<longleftrightarrow>
     rx a < rx b + rw b \<and> ry a < ry b + rh b \<and> rx a + rw a > rx b \<and> ry a + rh a > ry b"

section \<open>QuadTree\<close>

text \<open>
  A node holds its boundary \<^verbatim>\<open>(x, y, width, height)\<close>, its capacity and its objects;
  \<open>Leaf\<close> is a node with \<^verbatim>\<open>divided = False\<close>, \<open>Quad\<close> a node with its four
  children. Objects are references; \<open>rc\<close> reads the rectangle of a reference.
\<close>

type_synonym boundary = "rat \<times> rat \<times> rat \<times> rat"

datatype 'a quadtree =
    Leaf (boundary: boundary) (capacity: nat) (objects: "'a list")
  | Quad (boundary: boundary) (capacity: nat) (objects: "'a list")
      (northwest: "'a quadtree") (northeast: "'a quadtree")
      (southwest: "'a quadtree") (southeast: "'a quadtree")

definition QuadTree :: "boundary \<Rightarrow> nat \<Rightarrow> 'a quadtree" where
  "QuadTree b cap = Leaf b cap []"

definition intersects :: "boundary \<Rightarrow> Rect \<Rightarrow> bool" where
  "intersects b r = (case b of (x, y, w, h) \<Rightarrow>
     \<not> (of_int (rect_right r) < x \<or> of_int (rect_left r) > x + w \<or>
        of_int (rect_bottom r) < y \<or> of_int (rect_top r) > y + h))"

definition subdivide ::
  "boundary \<Rightarrow> nat \<Rightarrow> 'a quadtree \<times> 'a quadtree \<times> 'a quadtree \<times> 'a quadtree" where
  "subdivide b cap = (case b of (x, y, w, h) \<Rightarrow>
     (QuadTree (x, y, w / 2, h / 2) cap,
      QuadTree (x + w / 2, y, w / 2, h / 2) cap,
      QuadTree (x, y + h / 2, w / 2, h / 2) cap,
      QuadTree (x + w / 2, y + h / 2, w / 2, h / 2) cap))"

text \<open>The children of a node once \<^verbatim>\<open>if not self.divided: self.subdivide()\<close> has run.\<close>

definition children ::
  "'a quadtree \<Rightarrow> 'a quadtree \<times> 'a quadtree \<times> 'a quadtree \<times> 'a quadtree" where
  "children t = (case t of
     Leaf b cap objs \<Rightarrow> subdivide b cap
   | Quad b cap objs nw ne sw se \<Rightarrow> (nw, ne, sw, se))"

text \<open>
  \<^verbatim>\<open>QuadTree.insert\<close> returns its result together with the tree as mutated. The
  recursion descends into children that \<^verbatim>\<open>subdivide\<close> has just created, so it is not
  structural; a call that does not return is \<open>None\<close>.
\<close>

partial_function (option) QuadTree_insert ::
  "('a \<Rightarrow> Rect) \<Rightarrow> 'a quadtree \<Rightarrow> 'a \<Rightarrow> (bool \<times> 'a quadtree) option" where
  "QuadTree_insert rc t obj =
     (if \<not> intersects (boundary t) (rc obj) then Some (False, t)
      else if length (objects t) < capacity t then
        Some (True, (case t of
           Leaf b cap objs \<Rightarrow> Leaf b cap (objs @ [obj])
         | Quad b cap objs nw ne sw se \<Rightarrow> Quad b cap (objs @ [obj]) nw ne sw se))
      else (case children t of (nw, ne, sw, se) \<Rightarrow>
        do {
          (r1, nw') \<leftarrow> QuadTree_insert rc nw obj;
          if r1 then Some (True, Quad (boundary t) (capacity t) (objects t) nw' ne sw se)
          else do {
            (r2, ne') \<leftarrow> QuadTree_insert rc ne obj;
            if r2 then Some (True, Quad (boundary t) (capacity t) (objects t) nw' ne' sw se)
            else do {
              (r3, sw') \<leftarrow> QuadTree_insert rc sw obj;
              if r3 then
                Some (True, Quad (boundary t) (capacity t) (objects t) nw' ne' sw' se)
              else do {
                (r4, se') \<leftarrow> QuadTree_insert rc se obj;
                Some (r4, Quad (boundary t) (capacity t) (objects t) nw' ne' sw' se')
              }
            }
          }
        }))"

declare QuadTree_insert.simps [code]

text \<open>
  The loop \<^verbatim>\<open>for enemy in self.enemies: self.quadtree.insert(enemy)\<close>; the
  results of the calls are discarded.
\<close>

fun insert_all :: "('a \<Rightarrow> Rect) \<Rightarrow> 'a quadtree \<Rightarrow> 'a list \<Rightarrow> 'a quadtree option" where
  "insert_all rc t [] = Some t"
| "insert_all rc t (obj # objs) =
     (case QuadTree_insert rc t obj of
        None \<Rightarrow> None
      | Some (r, t') \<Rightarrow> insert_all rc t' objs)"

text \<open>
  \<^verbatim>\<open>QuadTree.query\<close>: \<open>found\<close> is the accumulator list; the objects of a node whose
  boundary the query rectangle misses, and of all nodes below it, are skipped.
\<close>

fun QuadTree_query :: "('a \<Rightarrow> Rect) \<Rightarrow> 'a quadtree \<Rightarrow> Rect \<Rightarrow> 'a list \<Rightarrow> 'a list" where
  "QuadTree_query rc (Leaf b cap objs) r found =
     (if \<not> intersects b r then found
      else found @ filter (\<lambda>obj. colliderect r (rc obj)) objs)"
| "QuadTree_query rc (Quad b cap objs nw ne sw se) r found =
     (if \<not> intersects b r then found
      else QuadTree_query rc se r
             (QuadTree_query rc sw r
               (QuadTree_query rc ne r
                 (QuadTree_query rc nw r
                   (found @ filter (\<lambda>obj. colliderect r (rc obj)) objs)))))"

section \<open>Difficulty, game states and the environment\<close>

text \<open>
  \<^verbatim>\<open>Difficulty\<close>: the payload of each member, without its display name.
\<close>

datatype Difficulty = EASY | NORMAL | HARD

record difficulty_value =
  d_enemies :: int
  d_speed :: rat
  d_health :: rat

fun Difficulty_value :: "Difficulty \<Rightarrow> difficulty_value" where
  "Difficulty_value EASY = \<lparr>d_enemies = 5, d_speed = 1, d_health = 1\<rparr>"
| "Difficulty_value NORMAL = \<lparr>d_enemies = 8, d_speed = 3 / 2, d_health = 2\<rparr>"
| "Difficulty_value HARD = \<lparr>d_enemies = 12, d_speed = 2, d_health = 3\<rparr>"

datatype GameState = MENU | GAME | GAME_OVER | VICTORY | STORY | UPGRADE

text \<open>
  What the program reads from outside itself: the random generator and the library
  functions \<^verbatim>\<open>math.sin\<close> and \<^verbatim>\<open>math.cos\<close>. The \<open>n\<close>-th draw of the run is
  \<open>rand_raw E n\<close> for \<^verbatim>\<open>random.randrange\<close> and \<open>rand_unit E n\<close> for
  \<^verbatim>\<open>random.random\<close>; the state counts the draws made. The draws of the particle
  system, which is not modelled, are not counted.
\<close>

record env =
  rand_raw :: "nat \<Rightarrow> nat"
  rand_unit :: "nat \<Rightarrow> rat"
  sin_f :: "rat \<Rightarrow> rat"
  cos_f :: "rat \<Rightarrow> rat"

definition randrange :: "env \<Rightarrow> nat \<Rightarrow> int \<Rightarrow> int \<Rightarrow> int" where
  "randrange E n start stop = start + int (rand_raw E n mod nat (stop - start))"

record Keys =
  K_LEFT :: bool
  K_RIGHT :: bool
  K_UP :: bool
  K_DOWN :: bool
  K_SPACE :: bool

section \<open>Entities\<close>

text \<open>
  \<^verbatim>\<open>Entity\<close> with the attributes every subclass has; \<open>speed\<close> is set by each
  subclass's constructor.
\<close>

record Entity =
  rect :: Rect
  health :: rat
  max_health :: rat
  speed :: rat

definition new_Entity :: "int \<Rightarrow> int \<Rightarrow> int \<Rightarrow> int \<Rightarrow> Entity" where
  "new_Entity x y width height =
     \<lparr>rect = \<lparr>rx = x, ry = y, rw = width, rh = height\<rparr>, health = 1, max_health = 1, speed = 0\<rparr>"

subsection \<open>Player\<close>

datatype upgrade_type = Speed | Damage | Fire_rate | Shield

text \<open>
  \<open>bullets\<close> is the group \<^verbatim>\<open>self.bullets\<close>, as the list of its members' references in
  insertion order.
\<close>

record Player = Entity +
  bullets :: "nat list"
  shoot_delay :: rat
  last_shot :: int
  upgrades :: "upgrade_type \<Rightarrow> rat"
  shield_active :: bool
  shield_timer :: rat
  shield_duration :: rat

text \<open>\<^verbatim>\<open>Player.__init__\<close>; \<open>now\<close> is the value of \<^verbatim>\<open>pygame.time.get_ticks()\<close>.\<close>

definition new_Player :: "int \<Rightarrow> Player" where
  "new_Player now =
     Entity.extend
       ((new_Entity (SCREEN_WIDTH div 2 - 25) (SCREEN_HEIGHT - 50) 50 40)
          \<lparr>speed := of_int PLAYER_SPEED, health := 100, max_health := 100\<rparr>)
       (Player.fields [] 250 now
          (\<lambda>u. case u of Speed \<Rightarrow> 1 | Damage \<Rightarrow> 1 | Fire_rate \<Rightarrow> 1 | Shield \<Rightarrow> 0)
          False 0 3000)"

definition move_x :: "rat \<Rightarrow> 'a Entity_scheme \<Rightarrow> 'a Entity_scheme" where
  "move_x d e = e\<lparr>rect := (rect e)\<lparr>rx := to_int (of_int (rx (rect e)) + d)\<rparr>\<rparr>"

definition move_y :: "rat \<Rightarrow> 'a Entity_scheme \<Rightarrow> 'a Entity_scheme" where
  "move_y d e = e\<lparr>rect := (rect e)\<lparr>ry := to_int (of_int (ry (rect e)) + d)\<rparr>\<rparr>"

definition Player_update :: "Keys \<Rightarrow> Player \<Rightarrow> Player" where
  "Player_update keys p =
     (let step = speed p * upgrades p Speed;
          p1 = (if K_LEFT keys \<and> rect_left (rect p) > 0 then move_x (- step) p else p);
          p2 = (if K_RIGHT keys \<and> rect_right (rect p1) < SCREEN_WIDTH
                then move_x step p1 else p1);
          p3 = (if K_UP keys \<and> rect_top (rect p2) > 0 then move_y (- step) p2 else p2);
          p4 = (if K_DOWN keys \<and> rect_bottom (rect p3) < SCREEN_HEIGHT
                then move_y step p3 else p3)
      in if shield_active p4 then
           (let p5 = p4\<lparr>shield_timer := shield_timer p4 + 1000 / of_int FPS\<rparr>
            in if shield_timer p5 \<ge> shield_duration p5
               then p5\<lparr>shield_active := False, shield_timer := 0\<rparr> else p5)
         else p4)"

definition Player_activate_shield :: "Player \<Rightarrow> Player" where
  "Player_activate_shield p =
     (if upgrades p Shield > 0 then p\<lparr>shield_active := True, shield_timer := 0\<rparr> else p)"

subsection \<open>Bullets, enemies and bosses\<close>

text \<open>
  The sprites held in the groups \<^verbatim>\<open>enemies\<close>, \<^verbatim>\<open>all_sprites\<close> and
  \<^verbatim>\<open>player.bullets\<close> are instances of \<^verbatim>\<open>Bullet\<close>, \<^verbatim>\<open>Enemy\<close> or \<^verbatim>\<open>Boss\<close>.
  One record holds the attributes of the three classes and \<open>kind\<close> is the class of the
  instance: \<open>damage\<close> is an attribute of bullets, the pattern and attack attributes are
  those of bosses, and an instance of another class leaves them at 0.
\<close>

datatype kind = Bullet | Enemy | Boss

record Sprite = Entity +
  kind :: kind
  damage :: rat
  pattern :: int
  pattern_timer :: int
  attack_timer :: rat
  attack_delay :: rat

definition new_Sprite :: "kind \<Rightarrow> Entity \<Rightarrow> Sprite" where
  "new_Sprite k e = Entity.extend e (Sprite.fields k 0 0 0 0 0)"

text \<open>
  \<^verbatim>\<open>Bullet.__init__\<close>: \<^verbatim>\<open>rect.centerx = x\<close> and \<^verbatim>\<open>rect.bottom = y\<close> move the
  5 by 15 rectangle.
\<close>

definition new_Bullet :: "int \<Rightarrow> int \<Rightarrow> Sprite" where
  "new_Bullet x y =
     (new_Sprite Bullet (new_Entity x y 5 15))
       \<lparr>rect := \<lparr>rx = x - 5 div 2, ry = y - 15, rw = 5, rh = 15\<rparr>,
        speed := of_int BULLET_SPEED, damage := 10\<rparr>"

text \<open>\<^verbatim>\<open>Bullet.update\<close>; the flag says that \<^verbatim>\<open>self.kill()\<close> was called.\<close>

definition Bullet_update :: "Sprite \<Rightarrow> Sprite \<times> bool" where
  "Bullet_update b =
     (let b1 = move_y (- speed b) b in (b1, rect_bottom (rect b1) < 0))"

text \<open>\<^verbatim>\<open>Enemy.__init__\<close> with both coordinates given, and with both drawn.\<close>

definition new_Enemy :: "difficulty_value \<Rightarrow> int \<Rightarrow> int \<Rightarrow> Sprite" where
  "new_Enemy d x y =
     (new_Sprite Enemy (new_Entity x y 40 40))
       \<lparr>speed := of_int ENEMY_SPEED * d_speed d, health := d_health d,
        max_health := d_health d\<rparr>"

definition new_Enemy_random :: "env \<Rightarrow> nat \<Rightarrow> difficulty_value \<Rightarrow> Sprite \<times> nat" where
  "new_Enemy_random E n d =
     (new_Enemy d (randrange E n 0 (SCREEN_WIDTH - 40)) (randrange E (n + 1) (- 100) (- 40)),
      n + 2)"

definition Enemy_reset_position :: "env \<Rightarrow> nat \<Rightarrow> Sprite \<Rightarrow> Sprite \<times> nat" where
  "Enemy_reset_position E n s =
     (s\<lparr>rect := (rect s)\<lparr>rx := randrange E n 0 (SCREEN_WIDTH - rw (rect s)),
                          ry := randrange E (n + 1) (- 100) (- 40)\<rparr>\<rparr>,
      n + 2)"

definition Enemy_update :: "env \<Rightarrow> nat \<Rightarrow> Sprite \<Rightarrow> Sprite \<times> nat" where
  "Enemy_update E n s =
     (let s1 = move_y (speed s) s
      in if rect_top (rect s1) > SCREEN_HEIGHT then Enemy_reset_position E n s1 else (s1, n))"

text \<open>
  \<^verbatim>\<open>Boss.__init__\<close>: the rectangle stays the 40 by 40 one of \<^verbatim>\<open>Enemy.__init__\<close>;
  only the image is replaced.
\<close>

definition new_Boss :: "difficulty_value \<Rightarrow> Sprite" where
  "new_Boss d =
     (new_Enemy d (SCREEN_WIDTH div 2 - 40) (- 100))
       \<lparr>kind := Boss, health := 50 * d_health d, max_health := 50 * d_health d,
        pattern := 0, pattern_timer := 0, attack_timer := 0, attack_delay := 1000\<rparr>"

text \<open>\<^verbatim>\<open>Boss.update\<close>; the flag is the returned attack signal.\<close>

definition Boss_move :: "env \<Rightarrow> Sprite \<Rightarrow> Sprite" where
  "Boss_move E s =
     (if pattern s = 0 then
        (let s1 = move_y 1 s
         in if rect_top (rect s1) > 50 then s1\<lparr>pattern := 1\<rparr> else s1)
      else if pattern s = 1 then
        (let s1 = move_x (sin_f E (of_int (pattern_timer s) * (5 / 100)) * 3) s
         in if pattern_timer s1 > 200 then s1\<lparr>pattern := 2, pattern_timer := 0\<rparr> else s1)
      else if pattern s = 2 then
        (let angle = of_int (pattern_timer s) * (5 / 100);
             s1 = s\<lparr>rect := (rect s)
                    \<lparr>rx := to_int (of_int (SCREEN_WIDTH div 2) + sin_f E angle * 200),
                     ry := to_int (100 + cos_f E angle * 50)\<rparr>\<rparr>
         in if pattern_timer s1 > 300 then s1\<lparr>pattern := 1, pattern_timer := 0\<rparr> else s1)
      else s)"

definition Boss_update :: "env \<Rightarrow> Sprite \<Rightarrow> Sprite \<times> bool" where
  "Boss_update E s =
     (let s1 = s\<lparr>pattern_timer := pattern_timer s + 1,
                 attack_timer := attack_timer s + 1000 / of_int FPS\<rparr>;
          s2 = Boss_move E s1
      in if attack_timer s2 \<ge> attack_delay s2 then (s2\<lparr>attack_timer := 0\<rparr>, True)
         else (s2, False))"

section \<open>The game\<close>

text \<open>
  The attributes of \<^verbatim>\<open>Game\<close> that the simulation reads and writes. Sprites live in
  \<open>heap\<close> and are named by references; a group is the list of its members' references
  in insertion order, without repetition. \<open>next_id\<close> is the reference the next
  constructed sprite gets. The player is a member of \<^verbatim>\<open>all_sprites\<close> from
  \<^verbatim>\<open>new_game\<close> on and nothing removes it: \<open>all_sprites\<close> lists the other members.
  \<open>current_chapter\<close> is the cursor of the \<^verbatim>\<open>StoryManager\<close>, which has five chapters.
  Screen, clock, fonts and the particle system are not modelled.
\<close>

record Game =
  difficulty :: Difficulty
  level :: int
  score :: int
  high_score :: int
  state :: GameState
  current_chapter :: nat
  quadtree :: "nat quadtree"
  player :: Player
  enemies :: "nat list"
  all_sprites :: "nat list"
  heap :: "nat \<Rightarrow> Sprite"
  next_id :: nat
  rng :: nat

definition n_chapters :: nat where "n_chapters = 5"

text \<open>
  \<^verbatim>\<open>Group.add\<close> and \<^verbatim>\<open>Sprite.kill\<close>. \<^verbatim>\<open>kill\<close> removes the sprite from every group;
  the object stays in the heap, where the quadtree may still refer to it.
\<close>

definition group_add :: "nat \<Rightarrow> nat list \<Rightarrow> nat list" where
  "group_add i xs = (if i \<in> set xs then xs else xs @ [i])"

definition kill :: "nat \<Rightarrow> Game \<Rightarrow> Game" where
  "kill i g =
     g\<lparr>enemies := removeAll i (enemies g),
       all_sprites := removeAll i (all_sprites g),
       player := (player g)\<lparr>bullets := removeAll i (bullets (player g))\<rparr>\<rparr>"

text \<open>Constructing a sprite stores it under a fresh reference.\<close>

definition alloc :: "Sprite \<Rightarrow> Game \<Rightarrow> nat \<times> Game" where
  "alloc s g = (next_id g, g\<lparr>heap := (heap g)(next_id g := s), next_id := next_id g + 1\<rparr>)"

definition rect_of :: "Game \<Rightarrow> nat \<Rightarrow> Rect" where
  "rect_of g i = rect (heap g i)"

subsection \<open>Shooting\<close>

text \<open>
  \<^verbatim>\<open>Player.shoot\<close>; \<open>now\<close> is the value of \<^verbatim>\<open>pygame.time.get_ticks()\<close>. The
  fire-rate upgrade starts at 1 and only grows, so the division is defined.
\<close>

definition Player_shoot :: "int \<Rightarrow> Game \<Rightarrow> nat option \<times> Game" where
  "Player_shoot now g =
     (let p = player g
      in if of_int (now - last_shot p) > shoot_delay p / upgrades p Fire_rate then
           (let b = new_Bullet (rect_centerx (rect p)) (rect_top (rect p));
                (i, g1) = alloc (b\<lparr>damage := damage b * upgrades p Damage\<rparr>) g
            in (Some i,
                g1\<lparr>player := p\<lparr>last_shot := now, bullets := group_add i (bullets p)\<rparr>\<rparr>))
         else (None, g))"

subsection \<open>Updating the groups\<close>

text \<open>
  \<^verbatim>\<open>Group.update\<close> calls \<^verbatim>\<open>update\<close> on each member of a copy of the member list;
  the method called is that of the member's class.
\<close>

definition sprite_update :: "env \<Rightarrow> nat \<Rightarrow> Game \<Rightarrow> Game" where
  "sprite_update E i g =
     (case kind (heap g i) of
        Bullet \<Rightarrow>
          (let (s, dead) = Bullet_update (heap g i);
               g1 = g\<lparr>heap := (heap g)(i := s)\<rparr>
           in if dead then kill i g1 else g1)
      | Enemy \<Rightarrow>
          (let (s, n) = Enemy_update E (rng g) (heap g i)
           in g\<lparr>heap := (heap g)(i := s), rng := n\<rparr>)
      | Boss \<Rightarrow> g\<lparr>heap := (heap g)(i := fst (Boss_update E (heap g i)))\<rparr>)"

fun group_update :: "env \<Rightarrow> nat list \<Rightarrow> Game \<Rightarrow> Game" where
  "group_update E [] g = g"
| "group_update E (i # is) g = group_update E is (sprite_update E i g)"

text \<open>
  \<^verbatim>\<open>self.all_sprites.update()\<close>, the player first, and
  \<^verbatim>\<open>self.player.bullets.update()\<close>.
\<close>

definition update_all_sprites :: "env \<Rightarrow> Keys \<Rightarrow> Game \<Rightarrow> Game" where
  "update_all_sprites E keys g =
     group_update E (all_sprites g) (g\<lparr>player := Player_update keys (player g)\<rparr>)"

definition update_bullets :: "env \<Rightarrow> Game \<Rightarrow> Game" where
  "update_bullets E g = group_update E (bullets (player g)) g"

subsection \<open>Progression\<close>

definition game_over :: "Game \<Rightarrow> Game" where
  "game_over g =
     (let g1 = g\<lparr>state := GAME_OVER\<rparr>
      in if score g1 > high_score g1 then g1\<lparr>high_score := score g1\<rparr> else g1)"

definition victory :: "Game \<Rightarrow> Game" where
  "victory g =
     (let g1 = g\<lparr>state := VICTORY\<rparr>
      in if score g1 > high_score g1 then g1\<lparr>high_score := score g1\<rparr> else g1)"

definition show_upgrade_screen :: "Game \<Rightarrow> Game" where
  "show_upgrade_screen g = g\<lparr>state := UPGRADE\<rparr>"

definition apply_upgrade :: "upgrade_type \<Rightarrow> Game \<Rightarrow> Game" where
  "apply_upgrade u g =
     (let p = player g;
          p1 = p\<lparr>upgrades := (upgrades p)(u := upgrades p u + 2 / 10)\<rparr>;
          p2 = (if u = Shield then Player_activate_shield p1 else p1)
      in g\<lparr>player := p2, state := GAME\<rparr>)"

text \<open>\<^verbatim>\<open>StoryManager.advance_story\<close>: the new state and the returned flag.\<close>

definition advance_story :: "Game \<Rightarrow> Game \<times> bool" where
  "advance_story g =
     (let g1 = g\<lparr>current_chapter := current_chapter g + 1\<rparr>
      in (g1, current_chapter g1 < n_chapters))"

text \<open>\<^verbatim>\<open>Game.spawn_enemies\<close>: the body of the loop at index \<open>i\<close>, and the loop.\<close>

definition spawn_one :: "env \<Rightarrow> nat \<Rightarrow> Game \<Rightarrow> Game" where
  "spawn_one E i g =
     (let diff = Difficulty_value (difficulty g);
          (enemy, n) = (if level g mod 5 = 0 \<and> i = 0 then (new_Boss diff, rng g)
                        else new_Enemy_random E (rng g) diff);
          (j, g1) = alloc enemy (g\<lparr>rng := n\<rparr>)
      in g1\<lparr>enemies := group_add j (enemies g1),
            all_sprites := group_add j (all_sprites g1)\<rparr>)"

text \<open>The sprite that the loop body of \<^verbatim>\<open>spawn_enemies\<close> constructs at index \<open>i\<close>.\<close>

definition spawned :: "env \<Rightarrow> nat \<Rightarrow> Game \<Rightarrow> Sprite" where
  "spawned E i g = (if level g mod 5 = 0 \<and> i = 0 then new_Boss (Difficulty_value (difficulty g))
      else fst (new_Enemy_random E (rng g) (Difficulty_value (difficulty g))))"

fun spawn_loop :: "env \<Rightarrow> nat list \<Rightarrow> Game \<Rightarrow> Game" where
  "spawn_loop E [] g = g"
| "spawn_loop E (i # is) g = spawn_loop E is (spawn_one E i g)"

definition spawn_enemies :: "env \<Rightarrow> Game \<Rightarrow> Game" where
  "spawn_enemies E g =
     (let diff = Difficulty_value (difficulty g);
          count = d_enemies diff + level g
      in spawn_loop E [0..<nat count] g)"

text \<open>\<^verbatim>\<open>Game.new_game\<close>; \<open>now\<close> is read by \<^verbatim>\<open>Player.__init__\<close>.\<close>

definition new_game :: "env \<Rightarrow> int \<Rightarrow> Game \<Rightarrow> Game" where
  "new_game E now g =
     spawn_enemies E
       (g\<lparr>player := new_Player now, enemies := [], all_sprites := [], score := 0,
          level := 1, current_chapter := 0, state := STORY\<rparr>)"

definition speed_up :: "nat \<Rightarrow> Game \<Rightarrow> Game" where
  "speed_up i g = g\<lparr>heap := (heap g)(i := (heap g i)\<lparr>speed := speed (heap g i) * (11 / 10)\<rparr>)\<rparr>"

definition level_complete :: "env \<Rightarrow> Game \<Rightarrow> Game" where
  "level_complete E g =
     (let g1 = g\<lparr>level := level g + 1\<rparr>;
          g2 = g1\<lparr>player := (player g1)
                 \<lparr>health := min (max_health (player g1)) (health (player g1) + 20)\<rparr>\<rparr>;
          g3 = (if level g2 mod 3 = 0 then fold speed_up (enemies g2) g2 else g2);
          g4 = (if level g3 mod 5 = 0 then
                  (let (g', more) = advance_story g3
                   in if more then g'\<lparr>state := STORY\<rparr> else spawn_enemies E g')
                else spawn_enemies E g3)
      in if level g4 > 15 then victory g4 else g4)"

subsection \<open>Collisions\<close>

text \<open>
  The body of the inner loop of the bullet-enemy check of \<^verbatim>\<open>Game.check_collisions\<close>
  for the bullet \<open>b\<close> and the candidate \<open>e\<close>.
\<close>

definition collide_rect :: "Game \<Rightarrow> nat \<Rightarrow> nat \<Rightarrow> bool" where
  "collide_rect g a b = colliderect (rect (heap g a)) (rect (heap g b))"

definition hit :: "env \<Rightarrow> nat \<Rightarrow> nat \<Rightarrow> Game \<Rightarrow> Game" where
  "hit E b e g =
     (if collide_rect g b e then
        (let g1 = g\<lparr>heap := (heap g)
                     (e := (heap g e)\<lparr>health := health (heap g e) - damage (heap g b)\<rparr>)\<rparr>;
             g2 = kill b g1
         in if health (heap g2 e) \<le> 0 then
              (let g3 = g2\<lparr>score := score g2 + 10 * (if kind (heap g2 e) = Boss then 5 else 1)\<rparr>;
                   g4 = kill e g3;
                   g5 = g4\<lparr>rng := rng g4 + 1\<rparr>
               in if rand_unit E (rng g4) < 1 / 10 then show_upgrade_screen g5 else g5)
            else g2)
      else g)"

fun hit_candidates :: "env \<Rightarrow> nat \<Rightarrow> nat list \<Rightarrow> Game \<Rightarrow> Game" where
  "hit_candidates E b [] g = g"
| "hit_candidates E b (e # es) g = hit_candidates E b es (hit E b e g)"

definition bullet_hits :: "env \<Rightarrow> nat \<Rightarrow> Game \<Rightarrow> Game" where
  "bullet_hits E b g =
     hit_candidates E b (QuadTree_query (rect_of g) (quadtree g) (rect (heap g b)) []) g"

fun bullets_loop :: "env \<Rightarrow> nat list \<Rightarrow> Game \<Rightarrow> Game" where
  "bullets_loop E [] g = g"
| "bullets_loop E (b # bs) g = bullets_loop E bs (bullet_hits E b g)"

definition bullet_enemy_collisions :: "env \<Rightarrow> Game \<Rightarrow> Game" where
  "bullet_enemy_collisions E g = bullets_loop E (bullets (player g)) g"

text \<open>
  The player-enemy check: \<^verbatim>\<open>spritecollide\<close> with \<^verbatim>\<open>dokill = True\<close> removes the
  colliding members of \<^verbatim>\<open>enemies\<close> and returns them; the loop then runs over them.
\<close>

definition spritecollide :: "Game \<Rightarrow> nat list \<times> Game" where
  "spritecollide g =
     (let hits = filter (\<lambda>i. colliderect (rect (player g)) (rect (heap g i))) (enemies g)
      in (hits, fold kill hits g))"

definition player_hit :: "nat \<Rightarrow> Game \<Rightarrow> Game" where
  "player_hit h g =
     (let g1 = g\<lparr>player := (player g)\<lparr>health := health (player g) - 20\<rparr>\<rparr>
      in if health (player g1) \<le> 0 then game_over g1 else g1)"

definition player_enemy_collisions :: "Game \<Rightarrow> Game" where
  "player_enemy_collisions g =
     (if \<not> shield_active (player g) then
        (let (hits, g1) = spritecollide g in fold player_hit hits g1)
      else g)"

definition level_completion_check :: "env \<Rightarrow> Game \<Rightarrow> Game" where
  "level_completion_check E g = (if length (enemies g) = 0 then level_complete E g else g)"

text \<open>The rebuild of the quadtree that opens \<^verbatim>\<open>Game.check_collisions\<close>.\<close>

definition rebuild_quadtree :: "Game \<Rightarrow> Game option" where
  "rebuild_quadtree g =
     map_option (\<lambda>t. g\<lparr>quadtree := t\<rparr>)
       (insert_all (rect_of g)
          (QuadTree (0, 0, of_int SCREEN_WIDTH, of_int SCREEN_HEIGHT) 4) (enemies g))"

definition check_collisions :: "env \<Rightarrow> Game \<Rightarrow> Game option" where
  "check_collisions E g =
     map_option
       (\<lambda>g1. level_completion_check E
                (player_enemy_collisions (bullet_enemy_collisions E g1)))
       (rebuild_quadtree g)"

subsection \<open>The Playing state's part of one pass of \<^verbatim>\<open>Game.run\<close>\<close>

text \<open>The body of the loop over \<^verbatim>\<open>self.enemies\<close> that lets bosses attack.\<close>

definition boss_attack :: "env \<Rightarrow> nat \<Rightarrow> Game \<Rightarrow> Game" where
  "boss_attack E i g =
     (if kind (heap g i) = Boss then
        (let (s, fire) = Boss_update E (heap g i);
             g1 = g\<lparr>heap := (heap g)(i := s)\<rparr>
         in if fire then
              (let b = new_Bullet (rect_centerx (rect s)) (rect_bottom (rect s));
                   (j, g2) = alloc (b\<lparr>speed := - speed b\<rparr>) g1
               in g2\<lparr>all_sprites := group_add j (all_sprites g2),
                     enemies := group_add j (enemies g2)\<rparr>)
            else g1)
      else g)"

fun boss_attacks :: "env \<Rightarrow> nat list \<Rightarrow> Game \<Rightarrow> Game" where
  "boss_attacks E [] g = g"
| "boss_attacks E (i # is) g = boss_attacks E is (boss_attack E i g)"

text \<open>
  The block \<^verbatim>\<open>if self.state == GameState.GAME:\<close> of \<^verbatim>\<open>Game.run\<close>, with the keys
  held and the clock value read during this pass.
\<close>

definition playing_update :: "env \<Rightarrow> Keys \<Rightarrow> int \<Rightarrow> Game \<Rightarrow> Game option" where
  "playing_update E keys now g =
     (let g1 = (if K_SPACE keys then snd (Player_shoot now g) else g);
          g2 = update_all_sprites E keys g1;
          g3 = update_bullets E g2
      in map_option (\<lambda>g4. boss_attacks E (enemies g4) g4) (check_collisions E g3))"

section \<open>Notions used in the statements\<close>

text \<open>
  The test of \<^verbatim>\<open>level_complete\<close> that routes to the Story state: the new level is a
  multiple of 5 and \<^verbatim>\<open>advance_story\<close> reports a remaining chapter.
\<close>

definition level_routed_to_story :: "Game \<Rightarrow> bool" where
  "level_routed_to_story g \<longleftrightarrow>
     (level g + 1) mod 5 = 0 \<and> current_chapter g + 1 < n_chapters"

text \<open>The members of \<^verbatim>\<open>enemies\<close> whose rectangle overlaps the player's.\<close>

definition player_hits :: "Game \<Rightarrow> nat list" where
  "player_hits g = filter (\<lambda>i. colliderect (rect (player g)) (rect (heap g i))) (enemies g)"

text \<open>Every node of the tree has a positive capacity.\<close>

fun caps_pos :: "'a quadtree \<Rightarrow> bool" where
  "caps_pos (Leaf b cap objs) \<longleftrightarrow> 0 < cap"
| "caps_pos (Quad b cap objs nw ne sw se) \<longleftrightarrow>
     0 < cap \<and> caps_pos nw \<and> caps_pos ne \<and> caps_pos sw \<and> caps_pos se"

section \<open>Concrete inputs\<close>

text \<open>
  Keys, an environment and the state after \<^verbatim>\<open>Game.__init__\<close>, used to run the
  definitions. \<^verbatim>\<open>__init__\<close> does not assign \<^verbatim>\<open>player\<close>, \<^verbatim>\<open>enemies\<close> and
  \<^verbatim>\<open>all_sprites\<close>; \<^verbatim>\<open>new_game\<close> does, before anything reads them.
\<close>

definition keys_none :: Keys where
  "keys_none =
     \<lparr>K_LEFT = False, K_RIGHT = False, K_UP = False, K_DOWN = False, K_SPACE = False\<rparr>"

definition keys_left :: Keys where
  "keys_left = keys_none\<lparr>K_LEFT := True\<rparr>"


definition env0 :: env where
  "env0 = \<lparr>rand_raw = (\<lambda>n. 37 * n + 11), rand_unit = (\<lambda>n. 1 / 2),
            sin_f = (\<lambda>x. 0), cos_f = (\<lambda>x. 1)\<rparr>"

definition Game_init :: Game where
  "Game_init =
     \<lparr>difficulty = NORMAL, level = 1, score = 0, high_score = 0, state = MENU,
      current_chapter = 0,
      quadtree = QuadTree (0, 0, of_int SCREEN_WIDTH, of_int SCREEN_HEIGHT) 4,
      player = new_Player 0, enemies = [], all_sprites = [],
      heap = (\<lambda>i. new_Sprite Enemy (new_Entity 0 0 0 0)), next_id = 0, rng = 0\<rparr>"

text \<open>The player after one speed upgrade: the multiplier is 1.2 and a step is 6 pixels.\<close>

definition upgraded_player :: Player where
  "upgraded_player = player (apply_upgrade Speed (Game_init\<lparr>state := UPGRADE\<rparr>))"

text \<open>
  Five 40 by 40 enemy rectangles on the screen and the rectangle of a bullet. The fifth
  enemy rectangle spans the vertical midline \<open>x = 400\<close> of the screen; the bullet
  rectangle lies right of the midline and overlaps it.
\<close>

definition five_rects :: "Rect list" where
  "five_rects =
     [\<lparr>rx = 10, ry = 10, rw = 40, rh = 40\<rparr>, \<lparr>rx = 100, ry = 10, rw = 40, rh = 40\<rparr>,
      \<lparr>rx = 200, ry = 10, rw = 40, rh = 40\<rparr>, \<lparr>rx = 300, ry = 10, rw = 40, rh = 40\<rparr>,
      \<lparr>rx = 390, ry = 100, rw = 40, rh = 40\<rparr>]"

definition probe_rect :: Rect where
  "probe_rect = \<lparr>rx = 420, ry = 110, rw = 5, rh = 15\<rparr>"

definition five_tree :: "Rect quadtree" where
  "five_tree =
     Quad (0, 0, 800, 600) 4 (take 4 five_rects)
       (Leaf (0, 0, 400, 300) 4 [five_rects ! 4])
       (Leaf (400, 0, 400, 300) 4 [])
       (Leaf (0, 300, 400, 300) 4 [])
       (Leaf (400, 300, 400, 300) 4 [])"

text \<open>A game in the Playing state with one enemy of Normal difficulty on the screen.\<close>

definition one_enemy_game :: Game where
  "one_enemy_game =
     Game_init\<lparr>state := GAME, heap := (heap Game_init)(0 := new_Enemy (Difficulty_value NORMAL) 100 100),
       enemies := [0], all_sprites := [0], next_id := 1\<rparr>"

text \<open>
  The enemy of \<open>one_enemy_game\<close> moved onto the player, whose health is down to 20.
\<close>

definition colliding_game :: Game where
  "colliding_game =
     one_enemy_game\<lparr>heap := (heap one_enemy_game)(0 := new_Enemy (Difficulty_value NORMAL) 380 540),
       player := (player one_enemy_game)\<lparr>health := 20\<rparr>\<rparr>"

text \<open>
  Two enemies of Normal difficulty (health 2) on the screen and two bullets of the player
  (damage 10), both overlapping the first enemy.
\<close>

definition two_bullets_game :: Game where
  "two_bullets_game =
     Game_init\<lparr>state := GAME,
       heap := (heap Game_init)
         (0 := new_Enemy (Difficulty_value NORMAL) 100 100,
          1 := new_Enemy (Difficulty_value NORMAL) 600 100,
          2 := new_Bullet 112 125,
          3 := new_Bullet 122 135),
       enemies := [0, 1], all_sprites := [0, 1], next_id := 4,
       player := (player Game_init)\<lparr>bullets := [2, 3]\<rparr>\<rparr>"

text \<open>
  A boss of Normal difficulty in its entrance pattern whose attack timer is one call short
  of the attack delay, and the game after the loop of \<^verbatim>\<open>Game.run\<close> that lets bosses
  attack: the boss has fired a bullet, which is sprite 1.
\<close>

definition boss_game :: Game where
  "boss_game =
     one_enemy_game\<lparr>heap := (heap one_enemy_game)
       (0 := (new_Boss (Difficulty_value NORMAL))
          \<lparr>rect := \<lparr>rx = 360, ry = 40, rw = 40, rh = 40\<rparr>, attack_timer := 990\<rparr>)\<rparr>"

definition boss_fired :: Game where
  "boss_fired = boss_attacks env0 (enemies boss_game) boss_game"


text \<open>
  A game with score 30 and high score 10 in which an enemy is on the player, whose health
  is 20, and a second enemy is elsewhere.
\<close>

definition losing_game :: Game where
  "losing_game =
     colliding_game\<lparr>score := 30, high_score := 10,
       heap := (heap colliding_game)(1 := new_Enemy (Difficulty_value NORMAL) 600 100),
       enemies := [0, 1], all_sprites := [0, 1], next_id := 2\<rparr>"

section \<open>Properties\<close>

subsection \<open>Basic facts\<close>

lemma to_int_of_int [simp]: "to_int (of_int k) = k"
  by (simp add: to_int_def)

lemma to_int_numeral [simp]:
  "to_int (numeral k) = numeral k" "to_int (- numeral k) = - numeral k"
  "to_int 0 = 0" "to_int 1 = 1"
  by (simp_all add: to_int_def)

lemma to_int_shift [simp]:
  "to_int (of_int k + 1) = k + 1" "to_int (1 + of_int k) = 1 + k"
  "to_int (of_int k + numeral n) = k + numeral n"
  "to_int (numeral n + of_int k) = numeral n + k"
  using to_int_of_int [of "k + 1"] to_int_of_int [of "k + numeral n"]
  by (simp_all add: add.commute)

lemma set_group_add [simp]: "set (group_add i xs) = insert i (set xs)"
  by (auto simp: group_add_def)

lemma distinct_group_add [simp]: "distinct (group_add i xs) = distinct xs"
  by (auto simp: group_add_def)

lemma kill_facts:
  "enemies (kill i g) = removeAll i (enemies g)"
  "all_sprites (kill i g) = removeAll i (all_sprites g)"
  "bullets (player (kill i g)) = removeAll i (bullets (player g))"
  "health (player (kill i g)) = health (player g)"
  "max_health (player (kill i g)) = max_health (player g)"
  "shield_active (player (kill i g)) = shield_active (player g)"
  "rect (player (kill i g)) = rect (player g)"
  "heap (kill i g) = heap g" "state (kill i g) = state g" "score (kill i g) = score g"
  "high_score (kill i g) = high_score g" "level (kill i g) = level g"
  "next_id (kill i g) = next_id g" "quadtree (kill i g) = quadtree g"
  "rng (kill i g) = rng g" "current_chapter (kill i g) = current_chapter g"
  "difficulty (kill i g) = difficulty g"
  by (simp_all add: kill_def)

lemma new_Player_bullets [simp]: "bullets (new_Player now) = []"
  by (simp add: new_Player_def Entity.extend_def Player.fields_def Player.defs Entity.defs)


lemma new_Bullet_facts:
  "kind (new_Bullet x y) = Bullet" "speed (new_Bullet x y) = 10"
  "damage (new_Bullet x y) = 10" "health (new_Bullet x y) = 1"
  "rect (new_Bullet x y) = \<lparr>rx = x - 2, ry = y - 15, rw = 5, rh = 15\<rparr>"
  by (simp_all add: new_Bullet_def new_Sprite_def new_Entity_def Entity.extend_def
      Sprite.fields_def Sprite.defs Entity.defs BULLET_SPEED_def)

lemma new_Enemy_facts:
  "kind (new_Enemy d x y) = Enemy" "speed (new_Enemy d x y) = 2 * d_speed d"
  "health (new_Enemy d x y) = d_health d"
  "rect (new_Enemy d x y) = \<lparr>rx = x, ry = y, rw = 40, rh = 40\<rparr>"
  by (simp_all add: new_Enemy_def new_Sprite_def new_Entity_def Entity.extend_def
      Sprite.fields_def Sprite.defs Entity.defs ENEMY_SPEED_def)

lemma kind_new_facts:
  "kind (new_Boss d) = Boss" "health (new_Boss d) = 50 * d_health d"
  "max_health (new_Boss d) = 50 * d_health d"
  "rect (new_Boss d) = \<lparr>rx = 360, ry = - 100, rw = 40, rh = 40\<rparr>"
  "kind (fst (new_Enemy_random E n d)) = Enemy"
  "health (fst (new_Enemy_random E n d)) = d_health d"
  "kind (new_Bullet x y) = Bullet"
  by (simp_all add: new_Boss_def new_Enemy_def new_Enemy_random_def new_Sprite_def new_Bullet_def
      new_Entity_def Entity.extend_def Sprite.fields_def Sprite.defs Entity.defs SCREEN_WIDTH_def)

lemma new_Boss_facts:
  "kind (new_Boss d) = Boss" "pattern (new_Boss d) = 0" "pattern_timer (new_Boss d) = 0"
  "attack_timer (new_Boss d) = 0" "attack_delay (new_Boss d) = 1000"
  "rect (new_Boss d) = \<lparr>rx = 360, ry = - 100, rw = 40, rh = 40\<rparr>"
  by (simp_all add: new_Boss_def new_Enemy_def new_Sprite_def new_Entity_def
      Entity.extend_def Sprite.fields_def Sprite.defs Entity.defs SCREEN_WIDTH_def)

lemma new_Player_facts:
  "rect (new_Player now) = \<lparr>rx = 375, ry = 550, rw = 50, rh = 40\<rparr>"
  "speed (new_Player now) = 5"
  "\<not> shield_active (new_Player now)"
  "upgrades (new_Player now) Speed = 1"
  "health (new_Player now) = 100"
  "max_health (new_Player now) = 100"
  by (simp_all add: new_Player_def new_Entity_def Entity.extend_def Player.fields_def
      Player.defs Entity.defs SCREEN_WIDTH_def SCREEN_HEIGHT_def PLAYER_SPEED_def)

lemma upgraded_player_facts:
  "rect upgraded_player = \<lparr>rx = 375, ry = 550, rw = 50, rh = 40\<rparr>"
  "speed upgraded_player * upgrades upgraded_player Speed = 6"
  "\<not> shield_active upgraded_player"
  by (simp_all add: upgraded_player_def apply_upgrade_def Game_init_def new_Player_facts
      Let_def)

subsection \<open>The player and the screen\<close>

lemma left_step:
  assumes "speed p * upgrades p Speed = 6" and "\<not> shield_active p" and "0 < rx (rect p)"
  shows "Player_update keys_left p = p\<lparr>rect := (rect p)\<lparr>rx := rx (rect p) - 6\<rparr>\<rparr>"
proof -
  have "to_int (of_int (rx (rect p)) + - 6) = rx (rect p) - 6"
    using to_int_of_int [of "rx (rect p) - 6"] by simp
  then show ?thesis
    using assms
    by (simp add: Player_update_def keys_left_def keys_none_def move_x_def rect_left_def
        Let_def)
qed

lemma left_run:
  "n \<le> 63 \<Longrightarrow> (Player_update keys_left ^^ n) upgraded_player =
     upgraded_player\<lparr>rect := \<lparr>rx = 375 - 6 * int n, ry = 550, rw = 50, rh = 40\<rparr>\<rparr>"
proof (induction n)
  case 0
  have "upgraded_player\<lparr>rect := rect upgraded_player\<rparr> = upgraded_player" by simp
  then show ?case by (simp add: upgraded_player_facts)
next
  case (Suc n)
  let ?p = "upgraded_player\<lparr>rect := \<lparr>rx = 375 - 6 * int n, ry = 550, rw = 50, rh = 40\<rparr>\<rparr>"
  have "Player_update keys_left ?p = ?p\<lparr>rect := (rect ?p)\<lparr>rx := rx (rect ?p) - 6\<rparr>\<rparr>"
    using Suc.prems by (intro left_step) (simp_all add: upgraded_player_facts)
  with Suc show ?case by simp
qed

text \<open>
  C2. The claim: after \<^verbatim>\<open>Player.update\<close> the player's rectangle lies within the
  screen, for any value of the speed upgrade. On the code: the player of a new game,
  after one speed upgrade, with the left key held for 63 passes, has its left edge at
  \<open>-3\<close>: on the 63rd pass the guard \<^verbatim>\<open>rect.left > 0\<close> sees 3 and the step is 6.
\<close>

theorem player_leaves_screen:
  "rect_left (rect ((Player_update keys_left ^^ 63) upgraded_player)) = - 3
   \<and> rect_left (rect ((Player_update keys_left ^^ 62) upgraded_player)) = 3"
  by (simp add: left_run rect_left_def)

subsection \<open>The quadtree\<close>

text \<open>
  C3. The claim: \<^verbatim>\<open>query\<close> returns every inserted object whose rectangle overlaps the
  query rectangle. On the code: with the root full, the fifth rectangle is accepted
  (\<^verbatim>\<open>insert\<close> returns \<open>True\<close>) and stored in the north-west child alone, although it
  reaches into the north-east quadrant; the query with the bullet rectangle, which
  overlaps it there, skips the north-west child and returns nothing.
\<close>

theorem query_misses_overlapping_object:
  "insert_all (\<lambda>r. r) (QuadTree (0, 0, 800, 600) 4) five_rects = Some five_tree
   \<and> (\<exists>t. insert_all (\<lambda>r. r) (QuadTree (0, 0, 800, 600) 4) (take 4 five_rects) = Some t
        \<and> QuadTree_insert (\<lambda>r. r) t (five_rects ! 4) = Some (True, five_tree))
   \<and> colliderect probe_rect (five_rects ! 4)
   \<and> QuadTree_query (\<lambda>r. r) five_tree probe_rect [] = []"
  by (simp add: five_rects_def five_tree_def probe_rect_def QuadTree_insert.simps
      QuadTree_def intersects_def rect_left_def rect_right_def rect_top_def
      rect_bottom_def children_def subdivide_def colliderect_def)

subsection \<open>Wave spawning\<close>

lemma spawn_one_facts:
  "next_id (spawn_one E i g) = Suc (next_id g)"
  "heap (spawn_one E i g) = (heap g)(next_id g := spawned E i g)"
  "enemies (spawn_one E i g) = group_add (next_id g) (enemies g)"
  "all_sprites (spawn_one E i g) = group_add (next_id g) (all_sprites g)"
  "level (spawn_one E i g) = level g"
  "difficulty (spawn_one E i g) = difficulty g"
  "player (spawn_one E i g) = player g"
  "state (spawn_one E i g) = state g"
  "score (spawn_one E i g) = score g"
  "high_score (spawn_one E i g) = high_score g"
  "current_chapter (spawn_one E i g) = current_chapter g"
  by (simp_all add: spawn_one_def spawned_def alloc_def Let_def new_Enemy_random_def split: prod.splits)

lemma spawn_loop_frame:
  "level (spawn_loop E is g) = level g"
  "difficulty (spawn_loop E is g) = difficulty g"
  "player (spawn_loop E is g) = player g"
  "state (spawn_loop E is g) = state g"
  "score (spawn_loop E is g) = score g"
  "high_score (spawn_loop E is g) = high_score g"
  "current_chapter (spawn_loop E is g) = current_chapter g"
  "next_id (spawn_loop E is g) = next_id g + length is"
  by (induction "is" arbitrary: g; simp add: spawn_one_facts)+

lemma spawn_loop_heap_old:
  "j < next_id g \<Longrightarrow> heap (spawn_loop E is g) j = heap g j"
  by (induction "is" arbitrary: g) (simp_all add: spawn_one_facts)

lemma spawn_loop_groups:
  "set (enemies (spawn_loop E is g)) = set (enemies g) \<union> {next_id g ..< next_id g + length is}"
  "set (all_sprites (spawn_loop E is g)) = set (all_sprites g) \<union> {next_id g ..< next_id g + length is}"
  by (induction "is" arbitrary: g; auto simp add: spawn_one_facts)+

lemma spawn_loop_kind:
  "k < length is \<Longrightarrow>
   kind (heap (spawn_loop E is g) (next_id g + k)) =
     (if level g mod 5 = 0 \<and> is ! k = 0 then Boss else Enemy)"
proof (induction "is" arbitrary: g k)
  case Nil
  then show ?case by simp
next
  case (Cons i "is")
  show ?case
  proof (cases k)
    case 0
    then show ?thesis
      by (simp add: spawn_loop_heap_old spawn_one_facts spawned_def kind_new_facts)
  next
    case (Suc k')
    with Cons.prems have "k' < length is" by simp
    from Cons.IH [OF this, of "spawn_one E i g"] Suc show ?thesis
      by (simp add: spawn_one_facts)
  qed
qed

lemma spawn_loop_boss_health:
  "level g mod 5 = 0 \<Longrightarrow>
   health (heap (spawn_loop E (0 # is) g) (next_id g)) = 50 * d_health (Difficulty_value (difficulty g))"
  by (simp add: spawn_loop_heap_old spawn_one_facts spawned_def kind_new_facts)

lemma d_enemies_pos: "5 \<le> d_enemies (Difficulty_value d)"
  by (cases d) simp_all

text \<open>
  C7. \<^verbatim>\<open>spawn_enemies\<close> constructs exactly (base enemy count of the difficulty +
  level) sprites, under the references from \<open>next_id g\<close> on, and adds them to
  \<^verbatim>\<open>enemies\<close> and \<^verbatim>\<open>all_sprites\<close>. The first is a \<^verbatim>\<open>Boss\<close> if and only if the level
  is a multiple of 5, the others are plain enemies, and the boss starts with health 50
  times the health multiplier of the difficulty. Levels count from 1.
\<close>

theorem spawn_enemies_wave:
  assumes "1 \<le> level g"
  shows "int (next_id (spawn_enemies E g) - next_id g)
           = d_enemies (Difficulty_value (difficulty g)) + level g
   \<and> set (enemies (spawn_enemies E g))
       = set (enemies g) \<union> {next_id g ..< next_id (spawn_enemies E g)}
   \<and> set (all_sprites (spawn_enemies E g))
       = set (all_sprites g) \<union> {next_id g ..< next_id (spawn_enemies E g)}
   \<and> (kind (heap (spawn_enemies E g) (next_id g)) = Boss \<longleftrightarrow> level g mod 5 = 0)
   \<and> (\<forall>j. next_id g < j \<and> j < next_id (spawn_enemies E g)
          \<longrightarrow> kind (heap (spawn_enemies E g) j) = Enemy)
   \<and> (level g mod 5 = 0 \<longrightarrow>
        health (heap (spawn_enemies E g) (next_id g))
          = 50 * d_health (Difficulty_value (difficulty g)))"
proof -
  let ?d = "Difficulty_value (difficulty g)"
  let ?n = "nat (d_enemies ?d + level g)"
  let ?g' = "spawn_enemies E g"
  have g': "?g' = spawn_loop E [0..<?n] g"
    by (simp add: spawn_enemies_def Let_def)
  have pos: "0 < ?n" using assms d_enemies_pos [of "difficulty g"] by simp
  have nid: "next_id ?g' = next_id g + ?n"
    by (simp add: g' spawn_loop_frame)
  have c1: "int (next_id ?g' - next_id g) = d_enemies ?d + level g"
    using pos by (simp add: nid)
  have c2: "set (enemies ?g') = set (enemies g) \<union> {next_id g ..< next_id ?g'}"
    by (simp add: nid) (simp add: g' spawn_loop_groups)
  have c3: "set (all_sprites ?g') = set (all_sprites g) \<union> {next_id g ..< next_id ?g'}"
    by (simp add: nid) (simp add: g' spawn_loop_groups)
  have kind: "kind (heap ?g' (next_id g + k)) = (if level g mod 5 = 0 \<and> k = 0 then Boss else Enemy)"
    if "k < ?n" for k
    using that spawn_loop_kind [of k "[0..<?n]" E g] by (simp add: g')
  have c4: "kind (heap ?g' (next_id g)) = Boss \<longleftrightarrow> level g mod 5 = 0"
    using kind [of 0] pos by simp
  have c5: "kind (heap ?g' j) = Enemy" if "next_id g < j \<and> j < next_id ?g'" for j
  proof -
    from that have "j - next_id g < ?n" "j - next_id g \<noteq> 0" "j = next_id g + (j - next_id g)"
      unfolding nid by linarith+
    with kind [of "j - next_id g"] show ?thesis by simp
  qed
  have c6: "health (heap ?g' (next_id g)) = 50 * d_health ?d" if "level g mod 5 = 0"
  proof -
    from pos have "[0..<?n] = 0 # [1..<?n]" by (simp add: upt_conv_Cons)
    with spawn_loop_boss_health [OF that, of E "[1..<?n]"] show ?thesis
      by (simp add: g')
  qed
  from c1 c2 c3 c4 c5 c6 show ?thesis by blast
qed

text \<open>
  Normal difficulty: level 1 spawns 9 sprites and the first is no boss; at level 5 the
  first is a boss with health 100.
\<close>

theorem spawn_enemies_wave_witness:
  "1 \<le> level Game_init
   \<and> next_id (spawn_enemies env0 Game_init) = 9
   \<and> kind (heap (spawn_enemies env0 Game_init) 0) \<noteq> Boss
   \<and> 1 \<le> level (Game_init\<lparr>level := 5\<rparr>)
   \<and> kind (heap (spawn_enemies env0 (Game_init\<lparr>level := 5\<rparr>)) 0) = Boss
   \<and> health (heap (spawn_enemies env0 (Game_init\<lparr>level := 5\<rparr>)) 0) = 100"
proof -
  have l1: "1 \<le> level Game_init" by (simp add: Game_init_def)
  have l5: "1 \<le> level (Game_init\<lparr>level := 5\<rparr>)" by simp
  show ?thesis
    using spawn_enemies_wave [OF l1, of env0] spawn_enemies_wave [OF l5, of env0]
    by (simp add: Game_init_def)
qed

subsection \<open>Level completion\<close>

lemma spawn_enemies_facts:
  "level (spawn_enemies E g) = level g"
  "difficulty (spawn_enemies E g) = difficulty g"
  "player (spawn_enemies E g) = player g"
  "state (spawn_enemies E g) = state g"
  "score (spawn_enemies E g) = score g"
  "high_score (spawn_enemies E g) = high_score g"
  "current_chapter (spawn_enemies E g) = current_chapter g"
  "next_id (spawn_enemies E g) =
     next_id g + nat (d_enemies (Difficulty_value (difficulty g)) + level g)"
  "set (enemies (spawn_enemies E g)) =
     set (enemies g) \<union> {next_id g ..< next_id (spawn_enemies E g)}"
  "j < next_id g \<Longrightarrow> heap (spawn_enemies E g) j = heap g j"
  by (simp_all add: spawn_enemies_def Let_def spawn_loop_frame spawn_loop_groups
      spawn_loop_heap_old)

lemma fold_speed_up_frame:
  "level (fold speed_up xs g) = level g"
  "difficulty (fold speed_up xs g) = difficulty g"
  "player (fold speed_up xs g) = player g"
  "state (fold speed_up xs g) = state g"
  "score (fold speed_up xs g) = score g"
  "high_score (fold speed_up xs g) = high_score g"
  "current_chapter (fold speed_up xs g) = current_chapter g"
  "next_id (fold speed_up xs g) = next_id g"
  "enemies (fold speed_up xs g) = enemies g"
  "all_sprites (fold speed_up xs g) = all_sprites g"
  by (induction xs arbitrary: g; simp add: speed_up_def)+

lemma fold_speed_up_other:
  "i \<notin> set xs \<Longrightarrow> heap (fold speed_up xs g) i = heap g i"
  by (induction xs arbitrary: g) (simp_all add: speed_up_def)

lemma fold_speed_up_member:
  "distinct xs \<Longrightarrow> i \<in> set xs \<Longrightarrow>
   heap (fold speed_up xs g) i = (heap g i)\<lparr>speed := speed (heap g i) * (11 / 10)\<rparr>"
proof (induction xs arbitrary: g)
  case Nil
  then show ?case by simp
next
  case (Cons x xs)
  show ?case
  proof (cases "i = x")
    case True
    with Cons.prems have "i \<notin> set xs" by simp
    then show ?thesis using True by (simp add: fold_speed_up_other) (simp add: speed_up_def)
  next
    case False
    with Cons.prems have "distinct xs" "i \<in> set xs" by simp_all
    from Cons.IH [OF this] False show ?thesis by (simp add: speed_up_def)
  qed
qed

lemma victory_frame:
  "level (victory g) = level g" "player (victory g) = player g"
  "heap (victory g) = heap g" "next_id (victory g) = next_id g"
  "enemies (victory g) = enemies g" "current_chapter (victory g) = current_chapter g"
  "state (victory g) = VICTORY"
  by (simp_all add: victory_def Let_def)

text \<open>
  C6. \<^verbatim>\<open>check_collisions\<close> calls \<^verbatim>\<open>level_complete\<close> exactly when \<^verbatim>\<open>enemies\<close> is
  empty after both collision checks. \<^verbatim>\<open>level_complete\<close> increments the level, restores
  20 health capped at the maximum, multiplies the speed of every member of \<^verbatim>\<open>enemies\<close>
  by 1.1 when the new level is a multiple of 3, advances the story when the new level is
  a multiple of 5 and then sets the Story state without spawning if a chapter remains, and
  spawns the next wave otherwise; a new level above 15 ends in the Victory state whatever
  the routing was. The members of \<^verbatim>\<open>enemies\<close> are distinct, constructed sprites.
\<close>

theorem level_complete_effects:
  assumes "distinct (enemies g)" and "\<forall>i\<in>set (enemies g). i < next_id g"
  shows "level (level_complete E g) = level g + 1
   \<and> health (player (level_complete E g))
       = min (max_health (player g)) (health (player g) + 20)
   \<and> (\<forall>i\<in>set (enemies g). speed (heap (level_complete E g) i)
         = (if (level g + 1) mod 3 = 0 then speed (heap g i) * (11 / 10)
            else speed (heap g i)))
   \<and> current_chapter (level_complete E g)
       = (if (level g + 1) mod 5 = 0 then current_chapter g + 1 else current_chapter g)
   \<and> (if level_routed_to_story g
       then next_id (level_complete E g) = next_id g
          \<and> enemies (level_complete E g) = enemies g
       else next_id (level_complete E g)
            = next_id g + nat (d_enemies (Difficulty_value (difficulty g)) + (level g + 1))
          \<and> set (enemies (level_complete E g))
            = set (enemies g) \<union> {next_id g ..< next_id (level_complete E g)})
   \<and> state (level_complete E g)
       = (if level g + 1 > 15 then VICTORY
          else if level_routed_to_story g then STORY else state g)
   \<and> level_completion_check E g = (if enemies g = [] then level_complete E g else g)
   \<and> check_collisions E g
       = map_option
           (\<lambda>g1. level_completion_check E
                    (player_enemy_collisions (bullet_enemy_collisions E g1)))
           (rebuild_quadtree g)"
proof -
  let ?l = "level g + 1"
  define g1 where "g1 = g\<lparr>level := level g + 1\<rparr>"
  define g2 where "g2 = g1\<lparr>player := (player g1)
      \<lparr>health := min (max_health (player g1)) (health (player g1) + 20)\<rparr>\<rparr>"
  define g3 where "g3 = (if level g2 mod 3 = 0 then fold speed_up (enemies g2) g2 else g2)"
  define g4 where "g4 = (if level g3 mod 5 = 0 then
                  (let (g', more) = advance_story g3
                   in if more then g'\<lparr>state := STORY\<rparr> else spawn_enemies E g')
                else spawn_enemies E g3)"
  have lc: "level_complete E g = (if level g4 > 15 then victory g4 else g4)"
    unfolding level_complete_def g4_def g3_def g2_def g1_def Let_def by (rule refl)
  have g2_frame: "level g2 = ?l" "state g2 = state g"
      "current_chapter g2 = current_chapter g" "next_id g2 = next_id g"
      "enemies g2 = enemies g" "difficulty g2 = difficulty g" "heap g2 = heap g"
      "health (player g2) = min (max_health (player g)) (health (player g) + 20)"
    by (simp_all add: g2_def g1_def)
  have g3_frame: "level g3 = ?l" "player g3 = player g2" "state g3 = state g"
      "current_chapter g3 = current_chapter g" "next_id g3 = next_id g"
      "enemies g3 = enemies g" "difficulty g3 = difficulty g"
    by (simp_all add: g3_def g2_frame fold_speed_up_frame)
  have g3_heap: "speed (heap g3 i) = (if ?l mod 3 = 0 then speed (heap g i) * (11 / 10)
            else speed (heap g i))" if "i \<in> set (enemies g)" for i
    using that assms(1) by (simp add: g3_def g2_frame fold_speed_up_member)
  have g4_eq: "g4 = (if ?l mod 5 = 0 then
       (if current_chapter g + 1 < n_chapters
        then g3\<lparr>current_chapter := current_chapter g + 1, state := STORY\<rparr>
        else spawn_enemies E (g3\<lparr>current_chapter := current_chapter g + 1\<rparr>))
     else spawn_enemies E g3)"
    by (simp add: g4_def advance_story_def Let_def g3_frame)
  have g4_level: "level g4 = ?l"
    by (simp add: g4_eq g3_frame spawn_enemies_facts)
  have g4_player: "player g4 = player g2"
    by (simp add: g4_eq g3_frame spawn_enemies_facts)
  have g4_heap: "heap g4 i = heap g3 i" if "i \<in> set (enemies g)" for i
    using that assms(2) by (simp add: g4_eq g3_frame spawn_enemies_facts)
  have g4_chapter: "current_chapter g4
       = (if ?l mod 5 = 0 then current_chapter g + 1 else current_chapter g)"
    by (simp add: g4_eq g3_frame spawn_enemies_facts)
  have g4_state: "state g4 = (if level_routed_to_story g then STORY else state g)"
    by (simp add: g4_eq g3_frame spawn_enemies_facts level_routed_to_story_def)
  have g4_wave: "if level_routed_to_story g
       then next_id g4 = next_id g \<and> enemies g4 = enemies g
       else next_id g4
            = next_id g + nat (d_enemies (Difficulty_value (difficulty g)) + ?l)
          \<and> set (enemies g4) = set (enemies g) \<union> {next_id g ..< next_id g4}"
    by (simp add: g4_eq g3_frame spawn_enemies_facts level_routed_to_story_def)
  have c1: "level (level_complete E g) = ?l"
    by (simp add: lc victory_frame g4_level)
  have c2: "health (player (level_complete E g))
       = min (max_health (player g)) (health (player g) + 20)"
    by (simp add: lc victory_frame g4_player g2_frame)
  have c3: "\<forall>i\<in>set (enemies g). speed (heap (level_complete E g) i)
         = (if ?l mod 3 = 0 then speed (heap g i) * (11 / 10) else speed (heap g i))"
    using g4_heap g3_heap by (simp add: lc victory_frame)
  have c4: "current_chapter (level_complete E g)
       = (if ?l mod 5 = 0 then current_chapter g + 1 else current_chapter g)"
    by (simp add: lc victory_frame g4_chapter)
  have c5: "if level_routed_to_story g
       then next_id (level_complete E g) = next_id g
          \<and> enemies (level_complete E g) = enemies g
       else next_id (level_complete E g)
            = next_id g + nat (d_enemies (Difficulty_value (difficulty g)) + ?l)
          \<and> set (enemies (level_complete E g))
            = set (enemies g) \<union> {next_id g ..< next_id (level_complete E g)}"
    using g4_wave by (simp add: lc victory_frame)
  have c6: "state (level_complete E g)
       = (if ?l > 15 then VICTORY
          else if level_routed_to_story g then STORY else state g)"
    by (simp add: lc victory_frame g4_level g4_state)
  have c7: "level_completion_check E g = (if enemies g = [] then level_complete E g else g)"
    by (simp add: level_completion_check_def)
  have c8: "check_collisions E g
       = map_option
           (\<lambda>g1. level_completion_check E
                    (player_enemy_collisions (bullet_enemy_collisions E g1)))
           (rebuild_quadtree g)"
    by (simp add: check_collisions_def)
  from c1 c2 c3 c4 c5 c6 c7 c8 show ?thesis by blast
qed

text \<open>
  With one enemy left at level 14 the new level is 15: the enemy's speed 3 becomes 3.3 and
  the first chapter change routes to the Story state without a wave. From level 15 with no
  enemy the wave of level 16 is spawned (24 sprites) and the state is Victory.
\<close>

theorem level_complete_effects_witness:
  "distinct (enemies (one_enemy_game\<lparr>level := 14\<rparr>))
   \<and> enemies (one_enemy_game\<lparr>level := 14\<rparr>) = [0]
   \<and> next_id (one_enemy_game\<lparr>level := 14\<rparr>) = 1
   \<and> level (level_complete env0 (one_enemy_game\<lparr>level := 14\<rparr>)) = 15
   \<and> speed (heap (level_complete env0 (one_enemy_game\<lparr>level := 14\<rparr>)) 0) = 33 / 10
   \<and> state (level_complete env0 (one_enemy_game\<lparr>level := 14\<rparr>)) = STORY
   \<and> next_id (level_complete env0 (one_enemy_game\<lparr>level := 14\<rparr>)) = 1
   \<and> state (level_complete env0 (one_enemy_game\<lparr>level := 15, enemies := []\<rparr>)) = VICTORY
   \<and> next_id (level_complete env0 (one_enemy_game\<lparr>level := 15, enemies := []\<rparr>)) = 25"
proof -
  let ?g = "one_enemy_game\<lparr>level := 14\<rparr>"
  let ?h = "one_enemy_game\<lparr>level := 15, enemies := []\<rparr>"
  have a: "distinct (enemies ?g)" "\<forall>i\<in>set (enemies ?g). i < next_id ?g"
    by (simp_all add: one_enemy_game_def)
  have b: "distinct (enemies ?h)" "\<forall>i\<in>set (enemies ?h). i < next_id ?h"
    by simp_all
  show ?thesis
    using level_complete_effects [OF a, of env0] level_complete_effects [OF b, of env0]
    by (simp add: one_enemy_game_def Game_init_def level_routed_to_story_def n_chapters_def
        new_Enemy_facts)
qed

subsection \<open>Player-enemy collisions\<close>

lemma fold_kill_facts:
  "enemies (fold kill xs g) = filter (\<lambda>i. i \<notin> set xs) (enemies g)"
  "health (player (fold kill xs g)) = health (player g)"
  "heap (fold kill xs g) = heap g" "state (fold kill xs g) = state g"
  "score (fold kill xs g) = score g" "high_score (fold kill xs g) = high_score g"
proof (induction xs arbitrary: g)
  case Nil
  { case 1 show ?case by simp }
  { case 2 show ?case by simp }
  { case 3 show ?case by simp }
  { case 4 show ?case by simp }
  { case 5 show ?case by simp }
  { case 6 show ?case by simp }
next
  case (Cons x xs)
  { case 1 show ?case by (simp add: Cons.IH kill_facts removeAll_filter_not_eq) (metis) }
  { case 2 show ?case by (simp add: Cons.IH kill_facts) }
  { case 3 show ?case by (simp add: Cons.IH kill_facts) }
  { case 4 show ?case by (simp add: Cons.IH kill_facts) }
  { case 5 show ?case by (simp add: Cons.IH kill_facts) }
  { case 6 show ?case by (simp add: Cons.IH kill_facts) }
qed

lemma player_hit_facts:
  "health (player (player_hit h g)) = health (player g) - 20"
  "enemies (player_hit h g) = enemies g"
  "heap (player_hit h g) = heap g"
  "score (player_hit h g) = score g"
  "state (player_hit h g) = (if health (player g) - 20 \<le> 0 then GAME_OVER else state g)"
  by (simp_all add: player_hit_def game_over_def Let_def)

lemma fold_player_hit:
  "health (player (fold player_hit hs g)) = health (player g) - 20 * of_nat (length hs)
   \<and> enemies (fold player_hit hs g) = enemies g
   \<and> (hs \<noteq> [] \<and> health (player g) - 20 * of_nat (length hs) \<le> 0
        \<longrightarrow> state (fold player_hit hs g) = GAME_OVER)
   \<and> (0 < health (player g) - 20 * of_nat (length hs)
        \<longrightarrow> state (fold player_hit hs g) = state g)"
proof (induction hs arbitrary: g)
  case Nil
  show ?case by simp
next
  case (Cons h hs)
  let ?g1 = "player_hit h g"
  note IH = Cons.IH [of ?g1]
  have h1: "health (player ?g1) - 20 * of_nat (length hs)
      = health (player g) - 20 * of_nat (length (h # hs))"
    by (simp add: player_hit_facts algebra_simps)
  have a: "health (player (fold player_hit (h # hs) g))
      = health (player g) - 20 * of_nat (length (h # hs))"
    using IH h1 by simp
  have b: "enemies (fold player_hit (h # hs) g) = enemies g"
    using IH by (simp add: player_hit_facts)
  have c: "state (fold player_hit (h # hs) g) = GAME_OVER"
    if le: "health (player g) - 20 * of_nat (length (h # hs)) \<le> 0"
  proof (cases "hs = []")
    case True
    with le show ?thesis by (simp add: player_hit_facts)
  next
    case False
    with IH h1 le show ?thesis by simp
  qed
  have d: "state (fold player_hit (h # hs) g) = state g"
    if gt: "0 < health (player g) - 20 * of_nat (length (h # hs))"
  proof -
    have "0 \<le> (20::rat) * of_nat (length hs)" by simp
    with gt have "\<not> health (player g) - 20 \<le> 0" by simp
    then have "state ?g1 = state g" by (simp add: player_hit_facts)
    with IH h1 gt show ?thesis by simp
  qed
  from a b c d show ?case by blast
qed

text \<open>
  C8. The player-enemy check of \<^verbatim>\<open>check_collisions\<close>. With the shield active it changes
  nothing: no damage. With the shield inactive it removes every member of \<^verbatim>\<open>enemies\<close>
  that overlaps the player, takes 20 health for each of them (each run of the loop body
  takes exactly 20), and calls \<^verbatim>\<open>game_over\<close> when the health has dropped to 0 or below;
  while the health stays positive the state is untouched.
\<close>

theorem shield_and_player_damage:
  "(shield_active (player g) \<longrightarrow> player_enemy_collisions g = g)
   \<and> (\<not> shield_active (player g) \<longrightarrow>
        enemies (player_enemy_collisions g)
          = filter (\<lambda>i. i \<notin> set (player_hits g)) (enemies g)
      \<and> health (player (player_enemy_collisions g))
          = health (player g) - 20 * of_nat (length (player_hits g))
      \<and> (player_hits g \<noteq> [] \<and> health (player (player_enemy_collisions g)) \<le> 0
           \<longrightarrow> state (player_enemy_collisions g) = GAME_OVER)
      \<and> (0 < health (player (player_enemy_collisions g))
           \<longrightarrow> state (player_enemy_collisions g) = state g))
   \<and> health (player (player_hit h g)) = health (player g) - 20"
proof -
  let ?g1 = "fold kill (player_hits g) g"
  have eq: "player_enemy_collisions g = fold player_hit (player_hits g) ?g1"
    if "\<not> shield_active (player g)"
    using that by (simp add: player_enemy_collisions_def spritecollide_def player_hits_def Let_def)
  have h: "health (player ?g1) = health (player g)" "state ?g1 = state g"
      "enemies ?g1 = filter (\<lambda>i. i \<notin> set (player_hits g)) (enemies g)"
    by (simp_all add: fold_kill_facts)
  show ?thesis
    using fold_player_hit [of "player_hits g" ?g1] eq h
    by (simp add: player_enemy_collisions_def player_hit_facts)
qed

text \<open>
  The player with health 20 and an overlapping enemy: unshielded, the enemy is removed, the
  health is 0 and the state is GameOver; shielded, the health stays 20.
\<close>

theorem shield_and_player_damage_witness:
  "\<not> shield_active (player colliding_game)
   \<and> player_hits colliding_game = [0]
   \<and> enemies (player_enemy_collisions colliding_game) = []
   \<and> health (player (player_enemy_collisions colliding_game)) = 0
   \<and> state (player_enemy_collisions colliding_game) = GAME_OVER
   \<and> shield_active (player (colliding_game\<lparr>player := (player colliding_game)\<lparr>shield_active := True\<rparr>\<rparr>))
   \<and> health (player (player_enemy_collisions
        (colliding_game\<lparr>player := (player colliding_game)\<lparr>shield_active := True\<rparr>\<rparr>))) = 20"
proof -
  have hits: "player_hits colliding_game = [0]"
    by (simp add: player_hits_def colliding_game_def one_enemy_game_def Game_init_def
        new_Player_facts new_Enemy_facts colliderect_def)
  have facts: "\<not> shield_active (player colliding_game)" "health (player colliding_game) = 20"
    "enemies colliding_game = [0]"
    by (simp_all add: colliding_game_def one_enemy_game_def Game_init_def new_Player_facts)
  show ?thesis
    using shield_and_player_damage [of colliding_game]
      shield_and_player_damage
        [of "colliding_game\<lparr>player := (player colliding_game)\<lparr>shield_active := True\<rparr>\<rparr>"]
    by (simp add: hits facts)
qed

subsection \<open>Timers and the fire-rate gate\<close>

lemma move_shield [simp]:
  "shield_active (move_x d p) = shield_active p" "shield_timer (move_x d p) = shield_timer p"
  "shield_duration (move_x d p) = shield_duration p"
  "shield_active (move_y d p) = shield_active p" "shield_timer (move_y d p) = shield_timer p"
  "shield_duration (move_y d p) = shield_duration p"
  by (simp_all add: move_x_def move_y_def)


lemma move_attack [simp]:
  "attack_timer (move_x d s) = attack_timer s" "attack_delay (move_x d s) = attack_delay s"
  "attack_timer (move_y d s) = attack_timer s" "attack_delay (move_y d s) = attack_delay s"
  "pattern (move_x d s) = pattern s" "pattern (move_y d s) = pattern s"
  "pattern_timer (move_x d s) = pattern_timer s" "pattern_timer (move_y d s) = pattern_timer s"
  "kind (move_x d s) = kind s" "kind (move_y d s) = kind s"
  "health (move_x d s) = health s" "health (move_y d s) = health s"
  "speed (move_x d s) = speed s" "speed (move_y d s) = speed s"
  by (simp_all add: move_x_def move_y_def)

lemma Boss_move_attack [simp]:
  "attack_timer (Boss_move E s) = attack_timer s" "attack_delay (Boss_move E s) = attack_delay s"
  by (simp_all add: Boss_move_def Let_def)







subsection \<open>Bullet-enemy collisions\<close>

lemma rebuild_two:
  "rebuild_quadtree two_bullets_game
     = Some (two_bullets_game\<lparr>quadtree := Leaf (0, 0, 800, 600) 4 [0, 1]\<rparr>)"
  by (simp add: rebuild_quadtree_def two_bullets_game_def Game_init_def rect_of_def
      QuadTree_insert.simps QuadTree_def intersects_def rect_left_def rect_right_def
      rect_top_def rect_bottom_def new_Enemy_facts SCREEN_WIDTH_def SCREEN_HEIGHT_def)

text \<open>
  C1. The claim: an enemy whose health is 0 or below after a hit is removed once and
  scored once, even when several bullets' candidate lists contain it. On the code: the
  first bullet takes the first enemy from health 2 to \<open>-8\<close>, scores 10 and kills it,
  which removes it from the groups but not from the quadtree built at the start of the
  call; the second bullet finds it among its candidates, takes its health to \<open>-18\<close> and
  scores 10 again. One enemy is gone and the score is 20.
\<close>

theorem enemy_scored_twice:
  "score two_bullets_game = 0
   \<and> map_option score (check_collisions env0 two_bullets_game) = Some 20
   \<and> map_option (\<lambda>g. health (heap g 0)) (check_collisions env0 two_bullets_game) = Some (- 18)
   \<and> map_option enemies (check_collisions env0 two_bullets_game) = Some [1]"
  by (simp add: check_collisions_def rebuild_two)
     (simp add: two_bullets_game_def Game_init_def bullet_enemy_collisions_def
      bullet_hits_def hit_def collide_rect_def colliderect_def kill_def rect_of_def
      intersects_def rect_left_def rect_right_def rect_top_def rect_bottom_def
      new_Enemy_facts new_Bullet_facts new_Player_facts env0_def Let_def
      player_enemy_collisions_def spritecollide_def player_hit_def
      level_completion_check_def show_upgrade_screen_def)

subsection \<open>Group updates\<close>

lemma update_kind [simp]:
  "kind (fst (Bullet_update s)) = kind s"
  "kind (fst (Enemy_update E n s)) = kind s"
  "kind (Boss_move E s) = kind s"
  "kind (fst (Boss_update E s)) = kind s"
  by (simp_all add: Bullet_update_def Enemy_update_def Enemy_reset_position_def
      Boss_update_def Boss_move_def Let_def)

lemma sprite_update_heap_other:
  "i \<noteq> j \<Longrightarrow> heap (sprite_update E j g) i = heap g i"
  by (simp add: sprite_update_def kill_def Let_def split: kind.splits prod.splits)

lemma sprite_update_heap_self:
  "kind (heap g i) = Boss \<Longrightarrow> heap (sprite_update E i g) i = fst (Boss_update E (heap g i))"
  "kind (heap g i) = Bullet \<Longrightarrow> heap (sprite_update E i g) i = fst (Bullet_update (heap g i))"
  by (simp_all add: sprite_update_def kill_def Let_def split: prod.splits)

lemma sprite_update_kind [simp]:
  "kind (heap (sprite_update E j g) i) = kind (heap g i)"
proof (cases "i = j")
  case True
  then show ?thesis
    by (cases "kind (heap g j)")
       (simp_all add: sprite_update_def kill_def Let_def split: prod.splits,
        (metis update_kind fst_conv)+)
next
  case False
  then show ?thesis by (simp add: sprite_update_heap_other)
qed

lemma sprite_update_groups:
  "enemies (sprite_update E j g)
     = (if kind (heap g j) = Bullet \<and> snd (Bullet_update (heap g j))
        then removeAll j (enemies g) else enemies g)"
  "all_sprites (sprite_update E j g)
     = (if kind (heap g j) = Bullet \<and> snd (Bullet_update (heap g j))
        then removeAll j (all_sprites g) else all_sprites g)"
  "bullets (player (sprite_update E j g))
     = (if kind (heap g j) = Bullet \<and> snd (Bullet_update (heap g j))
        then removeAll j (bullets (player g)) else bullets (player g))"
  "next_id (sprite_update E j g) = next_id g"
  by (simp_all add: sprite_update_def kill_def Let_def split: kind.splits prod.splits)

lemma group_update_next_id [simp]: "next_id (group_update E js g) = next_id g"
  by (induction js arbitrary: g) (simp_all add: sprite_update_groups)

lemma group_update_kind [simp]: "kind (heap (group_update E js g) i) = kind (heap g i)"
  by (induction js arbitrary: g) simp_all

lemma group_update_heap_other:
  "i \<notin> set js \<Longrightarrow> heap (group_update E js g) i = heap g i"
  by (induction js arbitrary: g) (simp_all add: sprite_update_heap_other)

lemma group_update_distinct:
  "distinct (enemies g) \<Longrightarrow> distinct (enemies (group_update E js g))"
  "distinct (all_sprites g) \<Longrightarrow> distinct (all_sprites (group_update E js g))"
  "distinct (bullets (player g)) \<Longrightarrow> distinct (bullets (player (group_update E js g)))"
  by (induction js arbitrary: g; simp add: sprite_update_groups distinct_removeAll)+




subsection \<open>Bullets that move downward\<close>

lemma group_update_others_keep:
  "i \<notin> set js \<Longrightarrow> i \<in> set (enemies g) \<Longrightarrow> i \<in> set (enemies (group_update E js g))"
  "i \<notin> set js \<Longrightarrow> i \<in> set (all_sprites g) \<Longrightarrow> i \<in> set (all_sprites (group_update E js g))"
  by (induction js arbitrary: g; simp add: sprite_update_groups)+

lemma group_update_bullet:
  "distinct js \<Longrightarrow> i \<in> set js \<Longrightarrow> kind (heap g i) = Bullet
     \<Longrightarrow> heap (group_update E js g) i = fst (Bullet_update (heap g i))"
proof (induction js arbitrary: g)
  case Nil
  then show ?case by simp
next
  case (Cons j js)
  show ?case
  proof (cases "j = i")
    case True
    with Cons.prems have "i \<notin> set js" by simp
    then show ?thesis
      using True Cons.prems(3) by (simp add: group_update_heap_other sprite_update_heap_self)
  next
    case False
    with Cons.prems have "distinct js" "i \<in> set js" by simp_all
    from Cons.IH [OF this, of "sprite_update E j g"] False Cons.prems(3) show ?thesis
      by (simp add: sprite_update_heap_other)
  qed
qed

lemma group_update_bullet_keeps:
  assumes "kind (heap g i) = Bullet" and "\<not> snd (Bullet_update (heap g i))" and "distinct js"
  shows "i \<in> set (enemies g) \<Longrightarrow> i \<in> set (enemies (group_update E js g))"
    and "i \<in> set (all_sprites g) \<Longrightarrow> i \<in> set (all_sprites (group_update E js g))"
  using assms
proof (induction js arbitrary: g)
  case Nil
  { case 1 then show ?case by simp }
  { case 2 then show ?case by simp }
next
  case (Cons j js)
  { case 1
    show ?case
    proof (cases "j = i")
      case True
      with 1 have "i \<notin> set js" "i \<in> set (enemies (sprite_update E j g))"
        by (simp_all add: sprite_update_groups)
      then show ?thesis by (simp add: group_update_others_keep)
    next
      case False
      with 1 have "i \<in> set (enemies (sprite_update E j g))"
        "kind (heap (sprite_update E j g) i) = Bullet"
        "\<not> snd (Bullet_update (heap (sprite_update E j g) i))" "distinct js"
        by (simp_all add: sprite_update_groups sprite_update_heap_other)
      with Cons.IH(1) [of "sprite_update E j g"] show ?thesis by simp
    qed }
  { case 2
    show ?case
    proof (cases "j = i")
      case True
      with 2 have "i \<notin> set js" "i \<in> set (all_sprites (sprite_update E j g))"
        by (simp_all add: sprite_update_groups)
      then show ?thesis by (simp add: group_update_others_keep)
    next
      case False
      with 2 have "i \<in> set (all_sprites (sprite_update E j g))"
        "kind (heap (sprite_update E j g) i) = Bullet"
        "\<not> snd (Bullet_update (heap (sprite_update E j g) i))" "distinct js"
        by (simp_all add: sprite_update_groups sprite_update_heap_other)
      with Cons.IH(2) [of "sprite_update E j g"] show ?thesis by simp
    qed }
qed

lemma downward_bullet_step:
  assumes "speed s = - 10"
  shows "fst (Bullet_update s) = s\<lparr>rect := (rect s)\<lparr>ry := ry (rect s) + 10\<rparr>\<rparr>"
    and "0 \<le> rect_bottom (rect s) \<Longrightarrow> \<not> snd (Bullet_update s)"
proof -
  have "to_int (of_int (ry (rect s)) + 10) = ry (rect s) + 10"
    using to_int_of_int [of "ry (rect s) + 10"] by simp
  then show "fst (Bullet_update s) = s\<lparr>rect := (rect s)\<lparr>ry := ry (rect s) + 10\<rparr>\<rparr>"
    and "0 \<le> rect_bottom (rect s) \<Longrightarrow> \<not> snd (Bullet_update s)"
    using assms by (simp_all add: Bullet_update_def move_y_def rect_bottom_def Let_def)
qed

lemma downward_bullet_run:
  assumes "kind (heap g i) = Bullet" and "speed (heap g i) = - 10"
    and "0 \<le> rect_bottom (rect (heap g i))"
    and "distinct (all_sprites g)" and "i \<in> set (all_sprites g)" and "i \<in> set (enemies g)"
  shows "i \<in> set (enemies ((update_all_sprites E keys ^^ n) g))
    \<and> i \<in> set (all_sprites ((update_all_sprites E keys ^^ n) g))
    \<and> distinct (all_sprites ((update_all_sprites E keys ^^ n) g))
    \<and> heap ((update_all_sprites E keys ^^ n) g) i
        = (heap g i)\<lparr>rect := (rect (heap g i))\<lparr>ry := ry (rect (heap g i)) + 10 * int n\<rparr>\<rparr>"
proof (induction n)
  case 0
  show ?case using assms by simp
next
  case (Suc n)
  let ?g = "(update_all_sprites E keys ^^ n) g"
  let ?g0 = "?g\<lparr>player := Player_update keys (player ?g)\<rparr>"
  let ?s = "heap ?g i"
  have s: "kind ?s = Bullet" "speed ?s = - 10" "0 \<le> rect_bottom (rect ?s)"
    using Suc assms(1,2,3) by (simp_all add: rect_bottom_def)
  let ?g' = "group_update E (all_sprites ?g) ?g0"
  have step: "(update_all_sprites E keys ^^ Suc n) g = ?g'"
    by (simp add: update_all_sprites_def)
  have alive: "\<not> snd (Bullet_update (heap ?g0 i))"
    using downward_bullet_step(2) [of ?s] s by simp
  have k0: "kind (heap ?g0 i) = Bullet" using s by simp
  have d: "distinct (all_sprites ?g)" "i \<in> set (all_sprites ?g)" "i \<in> set (enemies ?g)"
    using Suc by simp_all
  have h: "heap ?g' i = fst (Bullet_update ?s)"
    using d s(1) group_update_bullet [of "all_sprites ?g" i ?g0 E] by simp
  have m1: "i \<in> set (enemies ?g')"
    using group_update_bullet_keeps(1) [OF k0 alive d(1), of E] d(3) by simp
  have m2: "i \<in> set (all_sprites ?g')"
    using group_update_bullet_keeps(2) [OF k0 alive d(1), of E] d(2) by simp
  have m3: "distinct (all_sprites ?g')"
    using group_update_distinct(2) [of ?g0 E "all_sprites ?g"] d(1) by simp
  have "?s = (heap g i)\<lparr>rect := (rect (heap g i))\<lparr>ry := ry (rect (heap g i)) + 10 * int n\<rparr>\<rparr>"
    using Suc by simp
  then have h2: "heap ?g' i
      = (heap g i)\<lparr>rect := (rect (heap g i))\<lparr>ry := ry (rect (heap g i)) + 10 * int (Suc n)\<rparr>\<rparr>"
    using h downward_bullet_step(1) [OF s(2)] by (simp add: algebra_simps)
  show ?case unfolding step using m1 m2 m3 h2 by blast
qed

lemma boss_fired_facts:
  "kind (heap boss_fired 1) = Bullet" "speed (heap boss_fired 1) = - 10"
  "rect (heap boss_fired 1) = \<lparr>rx = 378, ry = 66, rw = 5, rh = 15\<rparr>"
  "enemies boss_fired = [0, 1]" "all_sprites boss_fired = [0, 1]"
  by (simp_all add: boss_fired_def boss_game_def one_enemy_game_def Game_init_def
      boss_attack_def Boss_update_def Boss_move_def move_y_def alloc_def group_add_def
      new_Boss_facts new_Bullet_facts FPS_def rect_top_def rect_bottom_def rect_centerx_def
      Let_def)

text \<open>
  C4. The claim: every bullet is destroyed when it leaves the vertical play bounds, boss
  bullets included. On the code: the bullet a boss fires has speed \<open>-10\<close>, so
  \<^verbatim>\<open>Bullet.update\<close> moves it down by 10 per pass and its test \<^verbatim>\<open>rect.bottom < 0\<close>
  never holds. After any number of passes of \<^verbatim>\<open>all_sprites.update()\<close> the bullet is still
  a member of \<^verbatim>\<open>enemies\<close> and \<^verbatim>\<open>all_sprites\<close>; after 60 passes its top edge is at 666,
  below the screen.
\<close>

theorem boss_bullet_not_destroyed:
  "kind (heap boss_fired 1) = Bullet \<and> speed (heap boss_fired 1) = - 10
   \<and> (\<forall>n. 1 \<in> set (enemies ((update_all_sprites env0 keys_none ^^ n) boss_fired))
          \<and> 1 \<in> set (all_sprites ((update_all_sprites env0 keys_none ^^ n) boss_fired))
          \<and> rect_top (rect (heap ((update_all_sprites env0 keys_none ^^ n) boss_fired) 1))
              = 66 + 10 * int n)
   \<and> SCREEN_HEIGHT
       < rect_top (rect (heap ((update_all_sprites env0 keys_none ^^ 60) boss_fired) 1))"
proof -
  have a: "kind (heap boss_fired 1) = Bullet" "speed (heap boss_fired 1) = - 10"
    "0 \<le> rect_bottom (rect (heap boss_fired 1))" "distinct (all_sprites boss_fired)"
    "1 \<in> set (all_sprites boss_fired)" "1 \<in> set (enemies boss_fired)"
    using boss_fired_facts by (simp_all add: rect_bottom_def)
  have run: "1 \<in> set (enemies ((update_all_sprites env0 keys_none ^^ n) boss_fired))
      \<and> 1 \<in> set (all_sprites ((update_all_sprites env0 keys_none ^^ n) boss_fired))
      \<and> rect_top (rect (heap ((update_all_sprites env0 keys_none ^^ n) boss_fired) 1))
          = 66 + 10 * int n" for n
  proof -
    note r = downward_bullet_run [where g = boss_fired and i = 1 and E = env0
        and keys = keys_none and n = n, OF a]
    from r boss_fired_facts(3)
    have "rect (heap ((update_all_sprites env0 keys_none ^^ n) boss_fired) 1)
        = \<lparr>rx = 378, ry = 66 + 10 * int n, rw = 5, rh = 15\<rparr>"
      by simp
    with r show ?thesis by (simp add: rect_top_def)
  qed
  have "SCREEN_HEIGHT
       < rect_top (rect (heap ((update_all_sprites env0 keys_none ^^ 60) boss_fired) 1))"
    using run [of 60] by (simp add: SCREEN_HEIGHT_def)
  with run a show ?thesis by blast
qed

subsection \<open>The rebuild of the quadtree returns\<close>

lemma insert_fresh:
  "0 < cap \<Longrightarrow> QuadTree_insert rc (Leaf b cap []) obj
     = Some (intersects b (rc obj),
             if intersects b (rc obj) then Leaf b cap [obj] else Leaf b cap [])"
  by (subst QuadTree_insert.simps) simp

lemma insert_returns:
  "caps_pos t \<Longrightarrow> \<exists>r t'. QuadTree_insert rc t obj = Some (r, t') \<and> caps_pos t'"
proof (induction t)
  case (Leaf b cap objs)
  then have cap: "0 < cap" by simp
  obtain x y w h where b: "b = (x, y, w, h)" by (cases b) auto
  show ?case
    by (subst QuadTree_insert.simps)
       (auto simp add: cap children_def subdivide_def QuadTree_def b insert_fresh)
next
  case (Quad b cap objs nw ne sw se)
  from Quad.prems have cap: "0 < cap" and c: "caps_pos nw" "caps_pos ne" "caps_pos sw" "caps_pos se"
    by simp_all
  from Quad.IH(1) [OF c(1)] obtain r1 nw' where
    1: "QuadTree_insert rc nw obj = Some (r1, nw')" "caps_pos nw'" by blast
  from Quad.IH(2) [OF c(2)] obtain r2 ne' where
    2: "QuadTree_insert rc ne obj = Some (r2, ne')" "caps_pos ne'" by blast
  from Quad.IH(3) [OF c(3)] obtain r3 sw' where
    3: "QuadTree_insert rc sw obj = Some (r3, sw')" "caps_pos sw'" by blast
  from Quad.IH(4) [OF c(4)] obtain r4 se' where
    4: "QuadTree_insert rc se obj = Some (r4, se')" "caps_pos se'" by blast
  show ?case
    by (subst QuadTree_insert.simps) (auto simp add: cap c 1 2 3 4 children_def)
qed

lemma insert_all_returns:
  "caps_pos t \<Longrightarrow> \<exists>t'. insert_all rc t objs = Some t'"
proof (induction objs arbitrary: t)
  case Nil
  show ?case by simp
next
  case (Cons obj objs)
  from insert_returns [OF Cons.prems, of rc obj] obtain r t' where
    "QuadTree_insert rc t obj = Some (r, t')" "caps_pos t'" by blast
  with Cons.IH [of t'] show ?case by simp
qed

lemma rebuild_quadtree_returns:
  "\<exists>t. rebuild_quadtree g = Some (g\<lparr>quadtree := t\<rparr>)"
proof -
  have "caps_pos (QuadTree (0, 0, of_int SCREEN_WIDTH, of_int SCREEN_HEIGHT) 4 :: nat quadtree)"
    by (simp add: QuadTree_def)
  from insert_all_returns [OF this, of "rect_of g" "enemies g"] show ?thesis
    by (auto simp add: rebuild_quadtree_def)
qed

lemma check_collisions_returns:
  "\<exists>t. check_collisions E g
     = Some (level_completion_check E
              (player_enemy_collisions (bullet_enemy_collisions E (g\<lparr>quadtree := t\<rparr>))))"
  using rebuild_quadtree_returns [of g] by (auto simp add: check_collisions_def)

subsection \<open>What one pass leaves of a sprite\<close>


lemma Player_update_bullets [simp]: "bullets (Player_update keys p) = bullets p"
  by (simp add: Player_update_def move_x_def move_y_def Let_def)









lemma boss_attack_frame:
  "i \<noteq> j \<Longrightarrow> i < next_id g \<Longrightarrow> heap (boss_attack E j g) i = heap g i"
  "j < next_id g \<Longrightarrow> kind (heap g j) = Boss
     \<Longrightarrow> heap (boss_attack E j g) j = fst (Boss_update E (heap g j))"
  "next_id g \<le> next_id (boss_attack E j g)"
  "i \<in> set (enemies (boss_attack E j g)) \<Longrightarrow> i \<in> set (enemies g) \<or> next_id g \<le> i"
  by (auto simp add: boss_attack_def alloc_def Let_def split: prod.splits if_splits)

lemma boss_attacks_next_id: "next_id g \<le> next_id (boss_attacks E js g)"
proof (induction js arbitrary: g)
  case Nil
  show ?case by simp
next
  case (Cons j js)
  from Cons [of "boss_attack E j g"] boss_attack_frame(3) [of g E j] show ?case by simp
qed




subsection \<open>A boss in one pass of the Playing state\<close>








subsection \<open>The high score in one pass of the Playing state\<close>

lemma Player_shoot_scores:
  "state (snd (Player_shoot now g)) = state g" "score (snd (Player_shoot now g)) = score g"
  "high_score (snd (Player_shoot now g)) = high_score g"
  by (simp_all add: Player_shoot_def alloc_def Let_def)

lemma sprite_update_scores:
  "state (sprite_update E i g) = state g" "score (sprite_update E i g) = score g"
  "high_score (sprite_update E i g) = high_score g"
  by (simp_all add: sprite_update_def kill_def Let_def split: kind.splits prod.splits)

lemma group_update_scores:
  "state (group_update E js g) = state g" "score (group_update E js g) = score g"
  "high_score (group_update E js g) = high_score g"
  by (induction js arbitrary: g; simp add: sprite_update_scores)+

lemma hit_scores:
  "high_score (hit E b e g) = high_score g"
  "state (hit E b e g) = state g \<or> state (hit E b e g) = UPGRADE"
  by (auto simp add: hit_def kill_def show_upgrade_screen_def Let_def)

lemma hit_candidates_scores:
  "high_score (hit_candidates E b es g) = high_score g"
  "state (hit_candidates E b es g) = state g \<or> state (hit_candidates E b es g) = UPGRADE"
proof (induction es arbitrary: g)
  case Nil
  { case 1 show ?case by simp }
  { case 2 show ?case by simp }
next
  case (Cons e es)
  { case 1 show ?case by (simp add: Cons.IH(1) hit_scores(1)) }
  { case 2 show ?case
      using Cons.IH(2) [of "hit E b e g"] hit_scores(2) [of E b e g] by auto }
qed

lemma bullets_loop_scores:
  "high_score (bullets_loop E bs g) = high_score g"
  "state (bullets_loop E bs g) = state g \<or> state (bullets_loop E bs g) = UPGRADE"
proof (induction bs arbitrary: g)
  case Nil
  { case 1 show ?case by simp }
  { case 2 show ?case by simp }
next
  case (Cons b bs)
  { case 1 show ?case by (simp add: Cons.IH(1) bullet_hits_def hit_candidates_scores(1)) }
  { case 2 show ?case
      using Cons.IH(2) [of "bullet_hits E b g"]
        hit_candidates_scores(2) [where E = E and b = b and g = g
          and es = "QuadTree_query (rect_of g) (quadtree g) (rect (heap g b)) []"]
      by (auto simp add: bullet_hits_def) }
qed

lemma fold_player_hit_scores:
  "score (fold player_hit hs g) = score g
   \<and> ((state (fold player_hit hs g) = GAME_OVER
         \<and> high_score (fold player_hit hs g) = max (high_score g) (score g))
       \<or> (state (fold player_hit hs g) = state g
         \<and> high_score (fold player_hit hs g) = high_score g))"
proof (induction hs arbitrary: g)
  case Nil
  show ?case by simp
next
  case (Cons h hs)
  let ?g1 = "player_hit h g"
  have 1: "score ?g1 = score g"
    "(state ?g1 = GAME_OVER \<and> high_score ?g1 = max (high_score g) (score g))
      \<or> (state ?g1 = state g \<and> high_score ?g1 = high_score g)"
    by (auto simp add: player_hit_def game_over_def Let_def)
  from Cons [of ?g1] 1 show ?case by (auto simp add: max_def)
qed

lemma player_enemy_collisions_scores:
  "score (player_enemy_collisions g) = score g
   \<and> ((state (player_enemy_collisions g) = GAME_OVER
         \<and> high_score (player_enemy_collisions g) = max (high_score g) (score g))
       \<or> (state (player_enemy_collisions g) = state g
         \<and> high_score (player_enemy_collisions g) = high_score g))"
  using fold_player_hit_scores [of "fst (spritecollide g)" "snd (spritecollide g)"]
  by (auto simp add: player_enemy_collisions_def spritecollide_def Let_def fold_kill_facts)

lemma level_complete_scores:
  "score (level_complete E g) = score g
   \<and> ((state (level_complete E g) = VICTORY
         \<and> high_score (level_complete E g) = max (high_score g) (score g))
       \<or> ((state (level_complete E g) = STORY \<or> state (level_complete E g) = state g)
         \<and> high_score (level_complete E g) = high_score g))"
proof -
  define g1 where "g1 = g\<lparr>level := level g + 1\<rparr>"
  define g2 where "g2 = g1\<lparr>player := (player g1)
      \<lparr>health := min (max_health (player g1)) (health (player g1) + 20)\<rparr>\<rparr>"
  define g3 where "g3 = (if level g2 mod 3 = 0 then fold speed_up (enemies g2) g2 else g2)"
  define g4 where "g4 = (if level g3 mod 5 = 0 then
                  (let (g', more) = advance_story g3
                   in if more then g'\<lparr>state := STORY\<rparr> else spawn_enemies E g')
                else spawn_enemies E g3)"
  have lc: "level_complete E g = (if level g4 > 15 then victory g4 else g4)"
    unfolding level_complete_def g4_def g3_def g2_def g1_def Let_def by (rule refl)
  have g3: "score g3 = score g" "high_score g3 = high_score g" "state g3 = state g"
    by (simp_all add: g3_def g2_def g1_def fold_speed_up_frame)
  have g4: "score g4 = score g" "high_score g4 = high_score g"
    "state g4 = STORY \<or> state g4 = state g"
    by (auto simp add: g4_def advance_story_def Let_def g3 spawn_enemies_facts)
  then show ?thesis by (auto simp add: lc victory_def Let_def max_def)
qed

lemma boss_attack_scores:
  "state (boss_attack E i g) = state g" "score (boss_attack E i g) = score g"
  "high_score (boss_attack E i g) = high_score g"
  by (simp_all add: boss_attack_def alloc_def Let_def split: prod.splits)

lemma boss_attacks_scores:
  "state (boss_attacks E js g) = state g" "score (boss_attacks E js g) = score g"
  "high_score (boss_attacks E js g) = high_score g"
  by (induction js arbitrary: g; simp add: boss_attack_scores)+

lemma pass_high_score:
  assumes "state g \<noteq> GAME_OVER" and "state g \<noteq> VICTORY"
    and run: "playing_update E keys now g = Some g'"
    and fin: "state g' = GAME_OVER \<or> state g' = VICTORY"
  shows "high_score g' = max (high_score g) (score g')"
proof -
  define g1 where "g1 = (if K_SPACE keys then snd (Player_shoot now g) else g)"
  define g3 where "g3 = update_bullets E (update_all_sprites E keys g1)"
  have g3: "state g3 = state g" "high_score g3 = high_score g"
    by (simp_all add: g3_def g1_def update_bullets_def update_all_sprites_def
        group_update_scores Player_shoot_scores)
  from check_collisions_returns [where E = E and g = g3] obtain t where
    cc: "check_collisions E g3
      = Some (level_completion_check E
               (player_enemy_collisions (bullet_enemy_collisions E (g3\<lparr>quadtree := t\<rparr>))))"
    by blast
  define gb where "gb = bullet_enemy_collisions E (g3\<lparr>quadtree := t\<rparr>)"
  define gp where "gp = player_enemy_collisions gb"
  define g4 where "g4 = level_completion_check E gp"
  have g': "g' = boss_attacks E (enemies g4) g4"
    using run cc by (simp add: playing_update_def Let_def g1_def g3_def gb_def gp_def g4_def)
  have gb: "high_score gb = high_score g" "state gb \<noteq> GAME_OVER" "state gb \<noteq> VICTORY"
    using bullets_loop_scores [where E = E and bs = "bullets (player g3)"
        and g = "g3\<lparr>quadtree := t\<rparr>"] g3 assms(1,2)
    by (auto simp add: gb_def bullet_enemy_collisions_def)
  have gp: "(state gp = GAME_OVER \<and> high_score gp = max (high_score g) (score gp))
      \<or> (state gp = state gb \<and> high_score gp = high_score g)"
    using player_enemy_collisions_scores [of gb] gb(1) by (auto simp add: gp_def)
  have g4: "(state g4 = GAME_OVER \<or> state g4 = VICTORY)
      \<longrightarrow> high_score g4 = max (high_score g) (score g4)"
  proof (cases "length (enemies gp) = 0")
    case False
    then have "g4 = gp" by (simp add: g4_def level_completion_check_def)
    with gp gb show ?thesis by auto
  next
    case True
    then have "g4 = level_complete E gp" by (simp add: g4_def level_completion_check_def)
    with level_complete_scores [of E gp] gp gb show ?thesis by (auto simp add: max_def)
  qed
  with fin show ?thesis by (simp add: g' boss_attacks_scores)
qed

lemma losing_game_pass:
  "map_option state (playing_update env0 keys_none 0 losing_game) = Some GAME_OVER"
  "map_option score (playing_update env0 keys_none 0 losing_game) = Some 30"
  by (simp_all add: playing_update_def keys_none_def update_all_sprites_def
      update_bullets_def sprite_update_def Player_update_def Enemy_update_def move_y_def
      boss_attack_def check_collisions_def rebuild_quadtree_def rect_of_def
      QuadTree_insert.simps QuadTree_def intersects_def rect_left_def rect_right_def
      rect_top_def rect_bottom_def SCREEN_WIDTH_def SCREEN_HEIGHT_def FPS_def
      bullet_enemy_collisions_def player_enemy_collisions_def spritecollide_def
      player_hit_def game_over_def kill_def
      colliderect_def level_completion_check_def losing_game_def colliding_game_def
      one_enemy_game_def Game_init_def new_Enemy_facts new_Player_facts Let_def)

text \<open>
  C9. \<^verbatim>\<open>game_over\<close> and \<^verbatim>\<open>victory\<close>, the only two places that assign the states
  GameOver and Victory, set the high score to the larger of the stored high score and
  the current score, and leave the score as it is. A pass of the Playing state that starts
  in another state and ends in GameOver or Victory ends with the high score at the larger
  of the high score it started with and the score it ends with.
\<close>

theorem high_score_updated:
  "state (game_over g) = GAME_OVER
   \<and> high_score (game_over g) = max (high_score g) (score g)
   \<and> score (game_over g) = score g
   \<and> state (victory g) = VICTORY
   \<and> high_score (victory g) = max (high_score g) (score g)
   \<and> score (victory g) = score g
   \<and> (state g \<noteq> GAME_OVER \<and> state g \<noteq> VICTORY
        \<and> playing_update E keys now g = Some g'
        \<and> (state g' = GAME_OVER \<or> state g' = VICTORY)
       \<longrightarrow> high_score g' = max (high_score g) (score g'))"
  using pass_high_score [of g E keys now g']
  by (simp add: game_over_def victory_def Let_def max_def)

text \<open>
  The pass from \<open>losing_game\<close> ends in GameOver with score 30; the high score, 10 before,
  is 30.
\<close>

theorem high_score_updated_witness:
  "state losing_game = GAME
   \<and> map_option state (playing_update env0 keys_none 0 losing_game) = Some GAME_OVER
   \<and> map_option score (playing_update env0 keys_none 0 losing_game) = Some 30
   \<and> high_score losing_game = 10
   \<and> map_option high_score (playing_update env0 keys_none 0 losing_game) = Some 30"
proof -
  from losing_game_pass obtain g' where
    run: "playing_update env0 keys_none 0 losing_game = Some g'"
    and fin: "state g' = GAME_OVER" "score g' = 30"
    by auto
  have st: "state losing_game = GAME" "high_score losing_game = 10"
    by (simp_all add: losing_game_def colliding_game_def one_enemy_game_def)
  from high_score_updated [of losing_game env0 keys_none 0 g'] run fin st
  have "high_score g' = 30" by simp
  with run fin st show ?thesis by simp
qed

end
